theory Spec2Isabelle
  imports Complex_Main
begin

section \<open>Values shared by both bridges\<close>

text \<open>
  The repository holds two native bridges built from the same design: the legacy bridge
  \<^verbatim>\<open>bridge.cpp\<close> and the newer \<^verbatim>\<open>bridge_121.cpp\<close>. Definitions taken from the
  latter carry the suffix \<open>_121\<close> wherever both files define a function of the same name.

  C++ \<^verbatim>\<open>float\<close> and \<^verbatim>\<open>double\<close> values are modelled by \<open>fp\<close>: finite values are
  real numbers and arithmetic on them is exact (rounding, overflow to infinity and signed
  zeros are not modelled); the special values follow IEEE 754, so that every
  \<^verbatim>\<open>std::isfinite\<close> test and every comparison against NaN of the source is a branch of
  the model. A decimal literal denotes its decimal value.
\<close>

datatype fp = Finite real | PosInf | NegInf | NaN

fun fp_neg :: "fp \<Rightarrow> fp" where
  "fp_neg (Finite a) = Finite (- a)"
| "fp_neg PosInf = NegInf"
| "fp_neg NegInf = PosInf"
| "fp_neg NaN = NaN"

fun fp_add :: "fp \<Rightarrow> fp \<Rightarrow> fp" where
  "fp_add (Finite a) (Finite b) = Finite (a + b)"
| "fp_add NaN _ = NaN"
| "fp_add _ NaN = NaN"
| "fp_add PosInf NegInf = NaN"
| "fp_add NegInf PosInf = NaN"
| "fp_add PosInf _ = PosInf"
| "fp_add _ PosInf = PosInf"
| "fp_add NegInf _ = NegInf"
| "fp_add _ NegInf = NegInf"

fun fp_mul :: "fp \<Rightarrow> fp \<Rightarrow> fp" where
  "fp_mul (Finite a) (Finite b) = Finite (a * b)"
| "fp_mul NaN _ = NaN"
| "fp_mul _ NaN = NaN"
| "fp_mul (Finite a) PosInf = (if a = 0 then NaN else if 0 < a then PosInf else NegInf)"
| "fp_mul (Finite a) NegInf = (if a = 0 then NaN else if 0 < a then NegInf else PosInf)"
| "fp_mul PosInf (Finite b) = (if b = 0 then NaN else if 0 < b then PosInf else NegInf)"
| "fp_mul NegInf (Finite b) = (if b = 0 then NaN else if 0 < b then NegInf else PosInf)"
| "fp_mul PosInf PosInf = PosInf"
| "fp_mul PosInf NegInf = NegInf"
| "fp_mul NegInf PosInf = NegInf"
| "fp_mul NegInf NegInf = PosInf"

fun fp_div :: "fp \<Rightarrow> fp \<Rightarrow> fp" where
  "fp_div (Finite a) (Finite b) =
     (if b = 0 then (if a = 0 then NaN else if 0 < a then PosInf else NegInf)
      else Finite (a / b))"
| "fp_div NaN _ = NaN"
| "fp_div _ NaN = NaN"
| "fp_div (Finite a) _ = Finite 0"
| "fp_div PosInf (Finite b) = (if 0 \<le> b then PosInf else NegInf)"
| "fp_div NegInf (Finite b) = (if 0 \<le> b then NegInf else PosInf)"
| "fp_div _ _ = NaN"

fun fp_less :: "fp \<Rightarrow> fp \<Rightarrow> bool" where
  "fp_less (Finite a) (Finite b) = (a < b)"
| "fp_less NaN _ = False"
| "fp_less _ NaN = False"
| "fp_less NegInf NegInf = False"
| "fp_less NegInf _ = True"
| "fp_less _ NegInf = False"
| "fp_less PosInf _ = False"
| "fp_less _ PosInf = True"

instantiation fp :: "{zero, one, uminus, plus, minus, times, inverse, ord}"
begin
definition zero_fp :: fp where "zero_fp = Finite 0"
definition one_fp :: fp where "one_fp = Finite 1"
definition uminus_fp :: "fp \<Rightarrow> fp" where "uminus_fp = fp_neg"
definition plus_fp :: "fp \<Rightarrow> fp \<Rightarrow> fp" where "plus_fp = fp_add"
definition minus_fp :: "fp \<Rightarrow> fp \<Rightarrow> fp" where "minus_fp a b = fp_add a (fp_neg b)"
definition times_fp :: "fp \<Rightarrow> fp \<Rightarrow> fp" where "times_fp = fp_mul"
definition divide_fp :: "fp \<Rightarrow> fp \<Rightarrow> fp" where "divide_fp = fp_div"
definition inverse_fp :: "fp \<Rightarrow> fp" where "inverse_fp a = fp_div (Finite 1) a"
definition less_fp :: "fp \<Rightarrow> fp \<Rightarrow> bool" where "less_fp = fp_less"
definition less_eq_fp :: "fp \<Rightarrow> fp \<Rightarrow> bool" where
  "less_eq_fp a b = (fp_less a b \<or> (a = b \<and> a \<noteq> NaN))"
instance ..
end

fun isfinite :: "fp \<Rightarrow> bool" where
  "isfinite (Finite a) = True"
| "isfinite _ = False"


fun sqrtf :: "fp \<Rightarrow> fp" where
  "sqrtf (Finite a) = (if a < 0 then NaN else Finite (sqrt a))"
| "sqrtf PosInf = PosInf"
| "sqrtf NegInf = NaN"
| "sqrtf NaN = NaN"

fun sinf :: "fp \<Rightarrow> fp" where
  "sinf (Finite a) = Finite (sin a)"
| "sinf _ = NaN"

fun cosf :: "fp \<Rightarrow> fp" where
  "cosf (Finite a) = Finite (cos a)"
| "cosf _ = NaN"

definition tanf :: "fp \<Rightarrow> fp" where
  "tanf a = sinf a / cosf a"

definition fp_of_int :: "int \<Rightarrow> fp" where
  "fp_of_int i = Finite (of_int i)"

definition std_min :: "'a::ord \<Rightarrow> 'a \<Rightarrow> 'a" where
  "std_min a b = (if b < a then b else a)"

definition std_max :: "'a::ord \<Rightarrow> 'a \<Rightarrow> 'a" where
  "std_max a b = (if a < b then b else a)"

section \<open>Strings\<close>


definition starts_with :: "string \<Rightarrow> string \<Rightarrow> bool" where
  "starts_with p s = (take (length p) s = p)"

definition dq :: char where
  "dq = CHR 0x22"

fun find_sub :: "string \<Rightarrow> string \<Rightarrow> nat option" where
  "find_sub k [] = (if k = [] then Some 0 else None)"
| "find_sub k (c # s) =
     (if starts_with k (c # s) then Some 0 else map_option Suc (find_sub k s))"

definition find_from :: "string \<Rightarrow> string \<Rightarrow> nat \<Rightarrow> nat option" where
  "find_from k s pos =
     (if length s < pos then None else map_option (\<lambda>i. pos + i) (find_sub k (drop pos s)))"

fun first_of :: "string \<Rightarrow> string \<Rightarrow> nat option" where
  "first_of cs [] = None"
| "first_of cs (c # s) = (if c \<in> set cs then Some 0 else map_option Suc (first_of cs s))"

definition find_first_of :: "string \<Rightarrow> string \<Rightarrow> nat \<Rightarrow> nat option" where
  "find_first_of cs s pos = map_option (\<lambda>i. pos + i) (first_of cs (drop pos s))"


section \<open>Display-name sanitizer (bridge.cpp)\<close>





section \<open>Control messages and the Config (both bridges)\<close>

text \<open>
  \<^verbatim>\<open>ParseConfig\<close> with its helper lambdas \<^verbatim>\<open>getStr\<close>, \<^verbatim>\<open>getBool\<close>,
  \<^verbatim>\<open>getFloat\<close> and \<^verbatim>\<open>getInt\<close>. The library functions \<^verbatim>\<open>std::stof\<close> and
  \<^verbatim>\<open>std::stoi\<close> are parameters; \<open>None\<close> is a thrown exception. In
  \<^verbatim>\<open>bridge.cpp\<close> nothing catches it: the assignments to \<^verbatim>\<open>g_config\<close> made so far
  stay, the later ones are not made, and the result carries \<open>False\<close>.
\<close>

definition json_key :: "string \<Rightarrow> string" where
  "json_key key = dq # key @ [dq, CHR '':'']"

definition getStr :: "string \<Rightarrow> string \<Rightarrow> string" where
  "getStr line key =
     (let k = json_key key in
      case find_sub k line of
        None \<Rightarrow> []
      | Some p0 \<Rightarrow>
          let p = p0 + length k in
          if p < length line \<and> line ! p = dq
          then (case find_from [dq] line (p + 1) of
                  None \<Rightarrow> drop (p + 1) line
                | Some e \<Rightarrow> take (e - p - 1) (drop (p + 1) line))
          else (case find_first_of '',}'' line p of
                  None \<Rightarrow> drop p line
                | Some e \<Rightarrow> take (e - p) (drop p line)))"

definition getBool :: "string \<Rightarrow> string \<Rightarrow> bool" where
  "getBool line key = (getStr line key = ''true'')"

definition getFloat :: "(string \<Rightarrow> fp option) \<Rightarrow> string \<Rightarrow> string \<Rightarrow> fp option" where
  "getFloat stof line key =
     (let v = getStr line key in if v = [] then Some (Finite 0) else stof v)"

definition getInt :: "(string \<Rightarrow> int option) \<Rightarrow> string \<Rightarrow> string \<Rightarrow> int option" where
  "getInt stoi line key =
     (let v = getStr line key in if v = [] then Some (- 1) else stoi v)"

record Config =
  leftClick :: bool
  rightClick :: bool
  jitter :: bool
  rightBlockOnly :: bool
  clickInChests :: bool
  nametags :: bool
  closestPlayerInfo :: bool
  nametagShowHealth :: bool
  nametagShowArmor :: bool
  chestEsp :: bool
  minCPS :: fp
  maxCPS :: fp
  rightMinCPS :: fp
  rightMaxCPS :: fp
  armed :: bool
  clicking :: bool
  keybindAutoclicker :: int
  keybindNametags :: int
  keybindClosestPlayer :: int
  keybindChestEsp :: int

definition default_Config :: Config where
  "default_Config =
     \<lparr>leftClick = True, rightClick = False, jitter = True, rightBlockOnly = False,
      clickInChests = False, nametags = False, closestPlayerInfo = False,
      nametagShowHealth = True, nametagShowArmor = True, chestEsp = False,
      minCPS = Finite 10, maxCPS = Finite 14, rightMinCPS = Finite 10, rightMaxCPS = Finite 14,
      armed = False, clicking = False,
      keybindAutoclicker = 0xC0, keybindNametags = 0, keybindClosestPlayer = 0,
      keybindChestEsp = 0\<rparr>"

fun run_assignments :: "('c \<Rightarrow> 'c option) list \<Rightarrow> 'c \<Rightarrow> 'c \<times> bool" where
  "run_assignments [] c = (c, True)"
| "run_assignments (a # as) c =
     (case a c of None \<Rightarrow> (c, False) | Some c' \<Rightarrow> run_assignments as c')"

definition config_assignments ::
  "(string \<Rightarrow> fp option) \<Rightarrow> (string \<Rightarrow> int option) \<Rightarrow> string \<Rightarrow> (Config \<Rightarrow> Config option) list" where
  "config_assignments stof stoi line =
     [\<lambda>c. Some (c\<lparr>armed := getBool line ''armed''\<rparr>),
      \<lambda>c. Some (c\<lparr>clicking := getBool line ''clicking''\<rparr>),
      \<lambda>c. map_option (\<lambda>v. c\<lparr>minCPS := v\<rparr>) (getFloat stof line ''minCPS''),
      \<lambda>c. map_option (\<lambda>v. c\<lparr>maxCPS := v\<rparr>) (getFloat stof line ''maxCPS''),
      \<lambda>c. Some (c\<lparr>leftClick := getBool line ''left''\<rparr>),
      \<lambda>c. Some (c\<lparr>rightClick := getBool line ''right''\<rparr>),
      \<lambda>c. map_option (\<lambda>v. c\<lparr>rightMinCPS := v\<rparr>) (getFloat stof line ''rightMinCPS''),
      \<lambda>c. map_option (\<lambda>v. c\<lparr>rightMaxCPS := v\<rparr>) (getFloat stof line ''rightMaxCPS''),
      \<lambda>c. Some (c\<lparr>rightBlockOnly := getBool line ''rightBlock''\<rparr>),
      \<lambda>c. Some (c\<lparr>jitter := getBool line ''jitter''\<rparr>),
      \<lambda>c. Some (c\<lparr>clickInChests := getBool line ''clickInChests''\<rparr>),
      \<lambda>c. Some (c\<lparr>nametags := getBool line ''nametags''\<rparr>),
      \<lambda>c. Some (c\<lparr>closestPlayerInfo := getBool line ''closestPlayerInfo''\<rparr>),
      \<lambda>c. Some (c\<lparr>nametagShowHealth := getBool line ''nametagShowHealth''\<rparr>),
      \<lambda>c. Some (c\<lparr>nametagShowArmor := getBool line ''nametagShowArmor''\<rparr>),
      \<lambda>c. Some (c\<lparr>chestEsp := getBool line ''chestEsp''\<rparr>),
      \<lambda>c. map_option (\<lambda>v. if 0 \<le> v then c\<lparr>keybindAutoclicker := v\<rparr> else c)
             (getInt stoi line ''keybindAutoclicker''),
      \<lambda>c. map_option (\<lambda>v. if 0 \<le> v then c\<lparr>keybindNametags := v\<rparr> else c)
             (getInt stoi line ''keybindNametags''),
      \<lambda>c. map_option (\<lambda>v. if 0 \<le> v then c\<lparr>keybindClosestPlayer := v\<rparr> else c)
             (getInt stoi line ''keybindClosestPlayer''),
      \<lambda>c. map_option (\<lambda>v. if 0 \<le> v then c\<lparr>keybindChestEsp := v\<rparr> else c)
             (getInt stoi line ''keybindChestEsp'')]"

definition ParseConfig ::
  "(string \<Rightarrow> fp option) \<Rightarrow> (string \<Rightarrow> int option) \<Rightarrow> string \<Rightarrow> Config \<Rightarrow> Config \<times> bool" where
  "ParseConfig stof stoi line g_config =
     (if getStr line ''type'' = ''config''
      then run_assignments (config_assignments stof stoi line) g_config
      else (g_config, True))"

definition getStr_121 :: "string \<Rightarrow> string \<Rightarrow> string" where
  "getStr_121 line key =
     (let k = json_key key in
      case find_sub k line of
        None \<Rightarrow> []
      | Some p0 \<Rightarrow>
          let p = p0 + length k in
          if length line \<le> p then []
          else if line ! p = dq
          then (case find_from [dq] line (p + 1) of
                  None \<Rightarrow> []
                | Some e \<Rightarrow> take (e - p - 1) (drop (p + 1) line))
          else (case find_first_of '',}'' line p of
                  None \<Rightarrow> drop p line
                | Some e \<Rightarrow> take (e - p) (drop p line)))"

definition getBool_121 :: "string \<Rightarrow> string \<Rightarrow> bool" where
  "getBool_121 line k = (getStr_121 line k = ''true'')"

definition getFloat_121 :: "(string \<Rightarrow> fp option) \<Rightarrow> string \<Rightarrow> string \<Rightarrow> fp" where
  "getFloat_121 stof line k =
     (let v = getStr_121 line k in
      if v = [] then Finite 0 else (case stof v of Some x \<Rightarrow> x | None \<Rightarrow> Finite 0))"

definition getInt_121 :: "(string \<Rightarrow> int option) \<Rightarrow> string \<Rightarrow> string \<Rightarrow> int \<Rightarrow> int" where
  "getInt_121 stoi line k def =
     (let v = getStr_121 line k in
      if v = [] then def else (case stoi v of Some x \<Rightarrow> x | None \<Rightarrow> def))"

text \<open>
  The Config of \<^verbatim>\<open>bridge_121.cpp\<close>; its fields carry the suffix \<open>_121\<close>, the record
  of \<^verbatim>\<open>bridge.cpp\<close> having fields of the same names.
\<close>

record Config_121 =
  armed_121 :: bool
  clicking_121 :: bool
  minCPS_121 :: fp
  maxCPS_121 :: fp
  jitter_121 :: bool
  clickInChests_121 :: bool
  aimAssist_121 :: bool
  nametags_121 :: bool
  chestEsp_121 :: bool
  closestPlayer_121 :: bool
  nametagHealth_121 :: bool
  nametagArmor_121 :: bool
  nametagMaxCount_121 :: int
  chestEspMaxCount_121 :: int
  rightClick_121 :: bool
  rightMinCPS_121 :: fp
  rightMaxCPS_121 :: fp
  rightBlockOnly_121 :: bool
  breakBlocks_121 :: bool
  gtbHelper_121 :: bool
  gtbCount_121 :: int
  gtbHint_121 :: string
  gtbPreview_121 :: string

definition default_Config_121 :: Config_121 where
  "default_Config_121 =
     \<lparr>armed_121 = False, clicking_121 = False, minCPS_121 = Finite 10, maxCPS_121 = Finite 14,
      jitter_121 = False, clickInChests_121 = False, aimAssist_121 = False,
      nametags_121 = False, chestEsp_121 = False, closestPlayer_121 = False,
      nametagHealth_121 = True, nametagArmor_121 = True, nametagMaxCount_121 = 8,
      chestEspMaxCount_121 = 5, rightClick_121 = False, rightMinCPS_121 = Finite 10,
      rightMaxCPS_121 = Finite 14, rightBlockOnly_121 = False, breakBlocks_121 = False,
      gtbHelper_121 = False, gtbCount_121 = 0, gtbHint_121 = [], gtbPreview_121 = []\<rparr>"

definition ParseConfig_121 ::
  "(string \<Rightarrow> fp option) \<Rightarrow> (string \<Rightarrow> int option) \<Rightarrow> string \<Rightarrow> Config_121 \<Rightarrow> Config_121" where
  "ParseConfig_121 stof stoi line g_config =
     (if getStr_121 line ''type'' \<noteq> ''config'' then g_config
      else g_config
        \<lparr>armed_121 := getBool_121 line ''armed'',
         clicking_121 := getBool_121 line ''clicking'',
         minCPS_121 := getFloat_121 stof line ''minCPS'',
         maxCPS_121 := getFloat_121 stof line ''maxCPS'',
         jitter_121 := getBool_121 line ''jitter'',
         clickInChests_121 := getBool_121 line ''clickInChests'',
         aimAssist_121 := getBool_121 line ''aimAssist'',
         nametags_121 := getBool_121 line ''nametags'',
         chestEsp_121 := getBool_121 line ''chestEsp'',
         closestPlayer_121 := getBool_121 line ''closestPlayerInfo'',
         nametagHealth_121 := getBool_121 line ''nametagShowHealth'',
         nametagArmor_121 := getBool_121 line ''nametagShowArmor'',
         nametagMaxCount_121 :=
           max 1 (min 20 (getInt_121 stoi line ''nametagMaxCount'' (nametagMaxCount_121 g_config))),
         chestEspMaxCount_121 :=
           max 1 (min 20 (getInt_121 stoi line ''chestEspMaxCount'' (chestEspMaxCount_121 g_config))),
         rightClick_121 := getBool_121 line ''right'',
         rightMinCPS_121 := getFloat_121 stof line ''rightMinCPS'',
         rightMaxCPS_121 := getFloat_121 stof line ''rightMaxCPS'',
         rightBlockOnly_121 := getBool_121 line ''rightBlock'',
         breakBlocks_121 := getBool_121 line ''breakBlocks'',
         gtbHelper_121 := getBool_121 line ''gtbHelper'',
         gtbHint_121 := getStr_121 line ''gtbHint'',
         gtbCount_121 := getInt_121 stoi line ''gtbCount'' 0,
         gtbPreview_121 := getStr_121 line ''gtbPreview''\<rparr>)"

definition stof_unused :: "string \<Rightarrow> fp option" where
  "stof_unused s = None"

definition stoi_unused :: "string \<Rightarrow> int option" where
  "stoi_unused s = None"

definition key_absent :: "string \<Rightarrow> string \<Rightarrow> bool" where
  "key_absent line key = (find_sub (json_key key) line = None)"

text \<open>The message \<^verbatim>\<open>{"type":"config","armed":true}\<close>.\<close>

definition armed_only_message :: string where
  "armed_only_message =
     ''{'' @ json_key ''type'' @ [dq] @ ''config'' @ [dq] @ '','' @ json_key ''armed'' @ ''true}''"

section \<open>Root singleton discovery (both bridges)\<close>

text \<open>
  What reflection answers about one loaded class: its name and its declared fields
  (\<open>None\<close> where the JNI call returns null or raises, which the source skips with
  \<^verbatim>\<open>continue\<close>). The scans are the loops of \<^verbatim>\<open>DiscoverMappings\<close> (bridge.cpp) and
  \<^verbatim>\<open>DiscoverJniMappings\<close> (bridge_121.cpp) over the loaded classes; a selected class
  is given by its index in the enumeration, its name and its count of non-static fields.
\<close>

record java_field =
  f_static :: bool
  f_type :: "string option"

record java_class =
  c_name :: "string option"
  c_fields :: "java_field option list option"

definition skipped_namespace :: "string \<Rightarrow> bool" where
  "skipped_namespace name =
     (starts_with ''java.'' name \<or> starts_with ''sun.'' name \<or> starts_with ''javax.'' name \<or>
      starts_with ''com.sun.'' name \<or> starts_with ''org.'' name \<or> starts_with ''jdk.'' name \<or>
      starts_with ''com.google.'' name \<or> starts_with ''io.'' name \<or>
      (name \<noteq> [] \<and> hd name = CHR ''[''))"

definition skipped_namespace_121 :: "string \<Rightarrow> bool" where
  "skipped_namespace_121 name =
     (skipped_namespace name \<or>
      starts_with ''com.moonsworth.'' name \<or> starts_with ''com.lunarclient.'' name \<or>
      starts_with ''lunar.'' name)"

fun scan_fields :: "string \<Rightarrow> java_field option list \<Rightarrow> bool \<times> int \<Rightarrow> bool \<times> int" where
  "scan_fields name [] acc = acc"
| "scan_fields name (None # fs) acc = scan_fields name fs acc"
| "scan_fields name (Some fld # fs) (hasSelf, objCount) =
     (case f_type fld of
        None \<Rightarrow> scan_fields name fs (hasSelf, objCount)
      | Some tn \<Rightarrow>
          scan_fields name fs
            (if f_static fld \<and> tn = name then True else hasSelf,
             if \<not> f_static fld then objCount + 1 else objCount))"

definition singleton_candidate :: "(string \<Rightarrow> bool) \<Rightarrow> java_class \<Rightarrow> (string \<times> int) option" where
  "singleton_candidate skip cls =
     (case c_name cls of
        None \<Rightarrow> None
      | Some name \<Rightarrow>
          if skip name then None
          else (case c_fields cls of
                  None \<Rightarrow> None
                | Some flds \<Rightarrow>
                    (case scan_fields name flds (False, 0) of
                       (hasSelf, objCount) \<Rightarrow>
                         if hasSelf \<and> objCount > 15 then Some (name, objCount) else None)))"


definition better_candidate :: "(nat \<times> string \<times> int) option \<Rightarrow> string \<Rightarrow> int \<Rightarrow> bool" where
  "better_candidate best name objCount =
     (case best of
        None \<Rightarrow> True
      | Some (bestCls, bestName, bestFields) \<Rightarrow>
          if starts_with ''net.minecraft'' name \<and> \<not> starts_with ''net.minecraft'' bestName then True
          else if objCount > bestFields \<and> \<not> starts_with ''net.minecraft'' bestName then True
          else False)"

fun scan_singleton_121 ::
  "nat \<Rightarrow> java_class list \<Rightarrow> (nat \<times> string \<times> int) option \<Rightarrow> (nat \<times> string \<times> int) option" where
  "scan_singleton_121 i [] best = best"
| "scan_singleton_121 i (cls # rest) best =
     (case singleton_candidate skipped_namespace_121 cls of
        Some (name, objCount) \<Rightarrow>
          scan_singleton_121 (Suc i) rest
            (if better_candidate best name objCount then Some (i, name, objCount) else best)
      | None \<Rightarrow> scan_singleton_121 (Suc i) rest best)"

datatype root_choice = ByKnownName string | ByScan nat string int


definition find_root_121 :: "bool \<Rightarrow> java_class list \<Rightarrow> root_choice option" where
  "find_root_121 known classes =
     (if known then Some (ByKnownName ''net.minecraft.client.Minecraft'')
      else map_option (\<lambda>(i, name, n). ByScan i name n) (scan_singleton_121 0 classes None))"







section \<open>Coordinate projector (both bridges)\<close>

text \<open>
  \<^verbatim>\<open>Matrix4x4\<close> holds the sixteen floats \<^verbatim>\<open>m[16]\<close>; every index the projectors use
  is a constant below 16. The fields \<^verbatim>\<open>x\<close>, \<^verbatim>\<open>y\<close>, \<^verbatim>\<open>z\<close> of
  \<^verbatim>\<open>LegoVec3\<close> are \<open>vec_x\<close>, \<open>vec_y\<close>, \<open>vec_z\<close>. A projector returns its
  \<^verbatim>\<open>bool\<close> and its two output parameters together: \<open>None\<close> is \<^verbatim>\<open>false\<close>,
  \<open>Some (sx, sy)\<close> is \<^verbatim>\<open>true\<close> with the coordinates written; a variable the
  source assigns twice has a primed name for its second value.
\<close>

record Matrix4x4 =
  m :: "fp list"

record LegoVec3 =
  vec_x :: fp
  vec_y :: fp
  vec_z :: fp

text \<open>\<^verbatim>\<open>WorldToScreen\<close> of bridge.cpp, and the value of its local \<^verbatim>\<open>pW\<close>.\<close>

definition WorldToScreen ::
  "fp \<Rightarrow> fp \<Rightarrow> fp \<Rightarrow> Matrix4x4 \<Rightarrow> Matrix4x4 \<Rightarrow> int \<Rightarrow> int \<Rightarrow> (fp \<times> fp) option" where
  "WorldToScreen x y z view proj w h =
     (let vX = x * m view ! 0 + y * m view ! 4 + z * m view ! 8 + m view ! 12;
          vY = x * m view ! 1 + y * m view ! 5 + z * m view ! 9 + m view ! 13;
          vZ = x * m view ! 2 + y * m view ! 6 + z * m view ! 10 + m view ! 14;
          vW = x * m view ! 3 + y * m view ! 7 + z * m view ! 11 + m view ! 15;
          pX = vX * m proj ! 0 + vY * m proj ! 4 + vZ * m proj ! 8 + m proj ! 12;
          pY = vX * m proj ! 1 + vY * m proj ! 5 + vZ * m proj ! 9 + m proj ! 13;
          pZ = vX * m proj ! 2 + vY * m proj ! 6 + vZ * m proj ! 10 + m proj ! 14;
          pW = vX * m proj ! 3 + vY * m proj ! 7 + vZ * m proj ! 11 + m proj ! 15
      in if pW < Finite 0.02 then None
         else
           let ndcX = pX / pW;
               ndcY = pY / pW;
               outX = (ndcX + Finite 1) * Finite 0.5 * fp_of_int w;
               outY = (Finite 1 - ndcY) * Finite 0.5 * fp_of_int h
           in Some (outX, outY))"

definition WorldToScreen_pW :: "fp \<Rightarrow> fp \<Rightarrow> fp \<Rightarrow> Matrix4x4 \<Rightarrow> Matrix4x4 \<Rightarrow> fp" where
  "WorldToScreen_pW x y z view proj =
     (let vX = x * m view ! 0 + y * m view ! 4 + z * m view ! 8 + m view ! 12;
          vY = x * m view ! 1 + y * m view ! 5 + z * m view ! 9 + m view ! 13;
          vZ = x * m view ! 2 + y * m view ! 6 + z * m view ! 10 + m view ! 14
      in vX * m proj ! 3 + vY * m proj ! 7 + vZ * m proj ! 11 + m proj ! 15)"

text \<open>\<^verbatim>\<open>WorldToScreen\<close> of bridge_121.cpp, and the value of its local \<^verbatim>\<open>ndcW\<close>.\<close>

definition WorldToScreen_121 ::
  "LegoVec3 \<Rightarrow> LegoVec3 \<Rightarrow> Matrix4x4 \<Rightarrow> Matrix4x4 \<Rightarrow> int \<Rightarrow> int \<Rightarrow> (fp \<times> fp) option" where
  "WorldToScreen_121 pos camPos view proj winW winH =
     (let dx = vec_x pos - vec_x camPos;
          dy = vec_y pos - vec_y camPos;
          dz = vec_z pos - vec_z camPos;
          clipX = dx * m view ! 0 + dy * m view ! 4 + dz * m view ! 8 + m view ! 12;
          clipY = dx * m view ! 1 + dy * m view ! 5 + dz * m view ! 9 + m view ! 13;
          clipZ = dx * m view ! 2 + dy * m view ! 6 + dz * m view ! 10 + m view ! 14;
          clipW = dx * m view ! 3 + dy * m view ! 7 + dz * m view ! 11 + m view ! 15;
          ndcX = clipX * m proj ! 0 + clipY * m proj ! 4 + clipZ * m proj ! 8 + clipW * m proj ! 12;
          ndcY = clipX * m proj ! 1 + clipY * m proj ! 5 + clipZ * m proj ! 9 + clipW * m proj ! 13;
          ndcZ = clipX * m proj ! 2 + clipY * m proj ! 6 + clipZ * m proj ! 10 + clipW * m proj ! 14;
          ndcW = clipX * m proj ! 3 + clipY * m proj ! 7 + clipZ * m proj ! 11 + clipW * m proj ! 15
      in if \<not> isfinite ndcW \<or> ndcW < Finite 0.1 then None
         else
           let ndcX' = ndcX / ndcW;
               ndcY' = ndcY / ndcW
           in if \<not> isfinite ndcX' \<or> \<not> isfinite ndcY' then None
              else
                let sx = (ndcX' + Finite 1) * Finite 0.5 * fp_of_int winW;
                    sy = (Finite 1 - ndcY') * Finite 0.5 * fp_of_int winH
                in if \<not> isfinite sx \<or> \<not> isfinite sy then None else Some (sx, sy))"

definition WorldToScreen_121_ndcW :: "LegoVec3 \<Rightarrow> LegoVec3 \<Rightarrow> Matrix4x4 \<Rightarrow> Matrix4x4 \<Rightarrow> fp" where
  "WorldToScreen_121_ndcW pos camPos view proj =
     (let dx = vec_x pos - vec_x camPos;
          dy = vec_y pos - vec_y camPos;
          dz = vec_z pos - vec_z camPos;
          clipX = dx * m view ! 0 + dy * m view ! 4 + dz * m view ! 8 + m view ! 12;
          clipY = dx * m view ! 1 + dy * m view ! 5 + dz * m view ! 9 + m view ! 13;
          clipZ = dx * m view ! 2 + dy * m view ! 6 + dz * m view ! 10 + m view ! 14;
          clipW = dx * m view ! 3 + dy * m view ! 7 + dz * m view ! 11 + m view ! 15
      in clipX * m proj ! 3 + clipY * m proj ! 7 + clipZ * m proj ! 11 + clipW * m proj ! 15)"

text \<open>
  \<^verbatim>\<open>WorldToScreen_Angles\<close> of bridge_121.cpp, and the value of its local \<^verbatim>\<open>vFwd\<close>,
  the component of the camera-relative offset along the camera's forward vector.
\<close>

definition WorldToScreen_Angles ::
  "LegoVec3 \<Rightarrow> LegoVec3 \<Rightarrow> fp \<Rightarrow> fp \<Rightarrow> fp \<Rightarrow> int \<Rightarrow> int \<Rightarrow> (fp \<times> fp) option" where
  "WorldToScreen_Angles worldPos camPos yawDeg pitchDeg fovDeg winW winH =
     (let dx = vec_x worldPos - vec_x camPos;
          dy = vec_y worldPos - vec_y camPos;
          dz = vec_z worldPos - vec_z camPos;
          PI = Finite 3.14159265;
          yaw = yawDeg * (PI / Finite 180);
          pitch = pitchDeg * (PI / Finite 180);
          sinY = sinf yaw; cosY = cosf yaw;
          sinP = sinf pitch; cosP = cosf pitch;
          fX = - sinY * cosP;
          fY = - sinP;
          fZ = cosY * cosP;
          upX0 = Finite 0; upY0 = Finite 1; upZ0 = Finite 0;
          rX = upY0 * fZ - upZ0 * fY;
          rY = upZ0 * fX - upX0 * fZ;
          rZ = upX0 * fY - upY0 * fX;
          rLen = sqrtf (rX * rX + rY * rY + rZ * rZ);
          degenerate = (rLen < Finite 0.000001);
          rX' = (if degenerate then Finite 1 else rX);
          rY' = (if degenerate then Finite 0 else rY);
          rZ' = (if degenerate then Finite 0 else rZ);
          rLen' = (if degenerate then Finite 1 else rLen);
          rX'' = rX' / rLen'; rY'' = rY' / rLen'; rZ'' = rZ' / rLen';
          uX = fY * rZ'' - fZ * rY'';
          uY = fZ * rX'' - fX * rZ'';
          uZ = fX * rY'' - fY * rX'';
          vFwd = dx * fX + dy * fY + dz * fZ;
          vRight = dx * rX'' + dy * rY'' + dz * rZ'';
          vUp = dx * uX + dy * uY + dz * uZ
      in if \<not> isfinite vFwd \<or> vFwd < Finite 0.1 then None
         else
           let aspect = fp_of_int winW / fp_of_int winH;
               tanHalfFov = tanf (fovDeg * Finite 0.5 * (PI / Finite 180));
               ndcX = (vRight / vFwd) / (tanHalfFov * aspect);
               ndcY = (vUp / vFwd) / tanHalfFov
           in if \<not> isfinite ndcX \<or> \<not> isfinite ndcY then None
              else
                let sx = (ndcX + Finite 1) * Finite 0.5 * fp_of_int winW;
                    sy = (Finite 1 - ndcY) * Finite 0.5 * fp_of_int winH
                in if \<not> isfinite sx \<or> \<not> isfinite sy then None else Some (sx, sy))"

definition WorldToScreen_Angles_vFwd :: "LegoVec3 \<Rightarrow> LegoVec3 \<Rightarrow> fp \<Rightarrow> fp \<Rightarrow> fp" where
  "WorldToScreen_Angles_vFwd worldPos camPos yawDeg pitchDeg =
     (let dx = vec_x worldPos - vec_x camPos;
          dy = vec_y worldPos - vec_y camPos;
          dz = vec_z worldPos - vec_z camPos;
          PI = Finite 3.14159265;
          yaw = yawDeg * (PI / Finite 180);
          pitch = pitchDeg * (PI / Finite 180);
          sinY = sinf yaw; cosY = cosf yaw;
          sinP = sinf pitch; cosP = cosf pitch;
          fX = - sinY * cosP;
          fY = - sinP;
          fZ = cosY * cosP
      in dx * fX + dy * fY + dz * fZ)"

text \<open>The identity matrix, and the origin and two points on the z axis.\<close>

definition identity_matrix :: Matrix4x4 where
  "identity_matrix =
     \<lparr>m = [Finite 1, Finite 0, Finite 0, Finite 0,
           Finite 0, Finite 1, Finite 0, Finite 0,
           Finite 0, Finite 0, Finite 1, Finite 0,
           Finite 0, Finite 0, Finite 0, Finite 1]\<rparr>"

definition perspective_like :: Matrix4x4 where
  \<comment> \<open>a projection of the OpenGL kind: clip w is minus the view-space z\<close>
  "perspective_like =
     \<lparr>m = [Finite 1, Finite 0, Finite 0, Finite 0,
           Finite 0, Finite 1, Finite 0, Finite 0,
           Finite 0, Finite 0, Finite (- 1), Finite (- 1),
           Finite 0, Finite 0, Finite (- 0.1), Finite 0]\<rparr>"

definition origin :: LegoVec3 where
  "origin = \<lparr>vec_x = Finite 0, vec_y = Finite 0, vec_z = Finite 0\<rparr>"

definition ahead_10 :: LegoVec3 where
  "ahead_10 = \<lparr>vec_x = Finite 0, vec_y = Finite 0, vec_z = Finite 10\<rparr>"

definition behind_10 :: LegoVec3 where
  "behind_10 = \<lparr>vec_x = Finite 0, vec_y = Finite 0, vec_z = Finite (- 10)\<rparr>"


section \<open>Overlay smoothing (both bridges)\<close>

text \<open>
  bridge.cpp keeps one \<^verbatim>\<open>TagSmoothingState\<close> per entity key in \<^verbatim>\<open>g_tagSmoothing\<close>
  (a new entry is default-constructed, \<^verbatim>\<open>init = false\<close>); \<open>tag_smooth_update\<close> is what
  \<^verbatim>\<open>RenderNametags\<close> does to the entry of an entity it draws, given the panel position
  \<open>(px, py)\<close> of this frame and the distance of the entity. The fields \<^verbatim>\<open>x\<close>,
  \<^verbatim>\<open>y\<close>, ... are \<open>ts_x\<close>, \<open>ts_y\<close>, ...
\<close>

record TagSmoothingState =
  ts_x :: fp
  ts_y :: fp
  ts_vx :: fp
  ts_vy :: fp
  ts_lastFrame :: int
  ts_init :: bool

definition tag_deltaSq :: "TagSmoothingState \<Rightarrow> fp \<Rightarrow> fp \<Rightarrow> fp" where
  "tag_deltaSq smooth px py =
     (let dxs = px - ts_x smooth; dys = py - ts_y smooth in dxs * dxs + dys * dys)"

definition tag_smooth_update ::
  "TagSmoothingState \<Rightarrow> fp \<Rightarrow> fp \<Rightarrow> fp \<Rightarrow> int \<Rightarrow> TagSmoothingState" where
  "tag_smooth_update smooth px py entity_dist g_tagFrameCounter =
     (let smooth' =
        (if \<not> ts_init smooth
         then smooth\<lparr>ts_x := px, ts_y := py, ts_vx := Finite 0, ts_vy := Finite 0, ts_init := True\<rparr>
         else
           let dxs = px - ts_x smooth;
               dys = py - ts_y smooth;
               deltaSq = dxs * dxs + dys * dys
           in if Finite 24000 < deltaSq
              then smooth\<lparr>ts_x := px, ts_y := py, ts_vx := Finite 0, ts_vy := Finite 0\<rparr>
              else
                let blend = Finite 0.12;
                    blend' = (if entity_dist < Finite 12 then Finite 0.14 else blend);
                    blend'' = (if deltaSq < Finite 6 then Finite 0.22 else blend')
                in smooth\<lparr>ts_x := ts_x smooth + dxs * blend'',
                           ts_y := ts_y smooth + dys * blend''\<rparr>)
      in smooth'\<lparr>ts_lastFrame := g_tagFrameCounter\<rparr>)"

text \<open>The entry of one entity over the frames that draw it, frame \<open>n\<close> with its inputs.\<close>

primrec tag_frames ::
  "TagSmoothingState \<Rightarrow> (nat \<Rightarrow> fp) \<Rightarrow> (nat \<Rightarrow> fp) \<Rightarrow> (nat \<Rightarrow> fp) \<Rightarrow> (nat \<Rightarrow> int) \<Rightarrow>
   nat \<Rightarrow> TagSmoothingState" where
  "tag_frames smooth px py entity_dist frame 0 = smooth"
| "tag_frames smooth px py entity_dist frame (Suc n) =
     tag_smooth_update (tag_frames smooth px py entity_dist frame n) (px n) (py n) (entity_dist n) (frame n)"

definition new_TagSmoothingState :: TagSmoothingState where
  "new_TagSmoothingState =
     \<lparr>ts_x = Finite 0, ts_y = Finite 0, ts_vx = Finite 0, ts_vy = Finite 0,
      ts_lastFrame = 0, ts_init = False\<rparr>"

text \<open>
  bridge_121.cpp keeps \<^verbatim>\<open>SmoothedPoint\<close> entries in the vector \<^verbatim>\<open>s_nametagSmooth\<close>,
  found by the player's name; \<open>smooth_nametag\<close> is the lookup of \<^verbatim>\<open>hwglSwapBuffers\<close>
  for one projected player: it returns the vector and the coordinates to draw at. The
  blend factor of a frame comes from the frame time \<^verbatim>\<open>io.DeltaTime\<close>.
\<close>

record SmoothedPoint =
  sp_key :: string
  sp_sx :: fp
  sp_sy :: fp
  sp_lastSeenMs :: nat

definition overlaySmoothAlpha :: "fp \<Rightarrow> fp" where
  "overlaySmoothAlpha DeltaTime =
     std_max (Finite 0.15) (std_min (Finite 0.65) (DeltaTime * Finite 14))"

fun smooth_found ::
  "SmoothedPoint list \<Rightarrow> string \<Rightarrow> fp \<Rightarrow> fp \<Rightarrow> fp \<Rightarrow> nat \<Rightarrow>
   (SmoothedPoint list \<times> fp \<times> fp) option" where
  "smooth_found [] smoothKey sx sy alpha now = None"
| "smooth_found (sm # rest) smoothKey sx sy alpha now =
     (if sp_key sm = smoothKey
      then
        let sm' = sm\<lparr>sp_sx := sp_sx sm + (sx - sp_sx sm) * alpha,
                      sp_sy := sp_sy sm + (sy - sp_sy sm) * alpha,
                      sp_lastSeenMs := now\<rparr>
        in Some (sm' # rest, sp_sx sm', sp_sy sm')
      else map_option (\<lambda>(l, a, b). (sm # l, a, b)) (smooth_found rest smoothKey sx sy alpha now))"

definition smooth_nametag ::
  "SmoothedPoint list \<Rightarrow> string \<Rightarrow> fp \<Rightarrow> fp \<Rightarrow> fp \<Rightarrow> nat \<Rightarrow> SmoothedPoint list \<times> fp \<times> fp" where
  "smooth_nametag s_nametagSmooth smoothKey sx sy alpha now =
     (case smooth_found s_nametagSmooth smoothKey sx sy alpha now of
        Some r \<Rightarrow> r
      | None \<Rightarrow>
          (s_nametagSmooth @ [\<lparr>sp_key = smoothKey, sp_sx = sx, sp_sy = sy, sp_lastSeenMs = now\<rparr>],
           sx, sy))"

text \<open>
  One player over the frames that draw it: the vector after \<open>n\<close> frames and the
  coordinates drawn in frame \<open>n\<close>.
\<close>

primrec nametag_frames ::
  "SmoothedPoint list \<Rightarrow> string \<Rightarrow> (nat \<Rightarrow> fp) \<Rightarrow> (nat \<Rightarrow> fp) \<Rightarrow> (nat \<Rightarrow> fp) \<Rightarrow> (nat \<Rightarrow> nat) \<Rightarrow>
   nat \<Rightarrow> SmoothedPoint list" where
  "nametag_frames s key sx sy DeltaTime now 0 = s"
| "nametag_frames s key sx sy DeltaTime now (Suc n) =
     fst (smooth_nametag (nametag_frames s key sx sy DeltaTime now n) key (sx n) (sy n)
            (overlaySmoothAlpha (DeltaTime n)) (now n))"

definition nametag_drawn ::
  "SmoothedPoint list \<Rightarrow> string \<Rightarrow> (nat \<Rightarrow> fp) \<Rightarrow> (nat \<Rightarrow> fp) \<Rightarrow> (nat \<Rightarrow> fp) \<Rightarrow> (nat \<Rightarrow> nat) \<Rightarrow>
   nat \<Rightarrow> fp \<times> fp" where
  "nametag_drawn s key sx sy DeltaTime now n =
     snd (smooth_nametag (nametag_frames s key sx sy DeltaTime now n) key (sx n) (sy n)
            (overlaySmoothAlpha (DeltaTime n)) (now n))"

definition all_finite :: "SmoothedPoint list \<Rightarrow> bool" where
  "all_finite s = list_all (\<lambda>sm. isfinite (sp_sx sm) \<and> isfinite (sp_sy sm)) s"

text \<open>The real number a finite value stands for (0 for the others).\<close>

fun fp_real :: "fp \<Rightarrow> real" where
  "fp_real (Finite a) = a"
| "fp_real _ = 0"

text \<open>An entry of each bridge for a player last drawn at the screen position (0, 0).\<close>

definition tracked_at_origin :: TagSmoothingState where
  "tracked_at_origin =
     \<lparr>ts_x = Finite 0, ts_y = Finite 0, ts_vx = Finite 0, ts_vy = Finite 0,
      ts_lastFrame = 6, ts_init = True\<rparr>"

definition steve_entry :: SmoothedPoint where
  "steve_entry = \<lparr>sp_key = ''Steve'', sp_sx = Finite 0, sp_sy = Finite 0, sp_lastSeenMs = 0\<rparr>"


section \<open>Discovery pass and its retry loop (bridge_121.cpp)\<close>

text \<open>
  \<open>jvm_answers\<close> is what the host runtime answers during one pass of
  \<^verbatim>\<open>DiscoverJniMappings\<close> up to the point where the root instance is in hand: whether
  JVMTI is available, the context classloader of the game thread, whether that loader
  resolves the well-known class name, the loaded classes, the field id that the loop over
  the root class's fields ends with (lines 2706 to 2729) and the value of that static
  field. A JNI reference or id is a number.

  Every \<^verbatim>\<open>return false\<close> of the pass lies before the first assignment to a handle other
  than \<^verbatim>\<open>g_gameClassLoader\<close>. The rest of a successful pass (steps 3 to 6, lines 2737 to
  3052) assigns the other handles, here the component \<open>roles\<close> of the cache; it is the
  parameter \<open>resolve_roles\<close>, and it never assigns \<^verbatim>\<open>g_gameClassLoader\<close>.
\<close>

type_synonym jref = nat

record jvm_answers =
  jvmti_available :: bool
  game_classloader :: "jref option"
  known_root :: bool
  loaded_classes :: "java_class list"
  singleton_field :: "jref option"
  singleton_instance :: "jref option"

record 'r jni_cache =
  g_gameClassLoader :: "jref option"
  roles :: 'r

definition DiscoverJniMappings ::
  "(jvm_answers \<Rightarrow> 'r \<Rightarrow> 'r) \<Rightarrow> jvm_answers \<Rightarrow> 'r jni_cache \<Rightarrow> bool \<times> 'r jni_cache" where
  "DiscoverJniMappings resolve_roles jvm cache =
     (if \<not> jvmti_available jvm then (False, cache)
      else
        case game_classloader jvm of
          None \<Rightarrow> (False, cache)
        | Some gcl \<Rightarrow>
            let cache' = (if g_gameClassLoader cache = None
                          then cache\<lparr>g_gameClassLoader := Some gcl\<rparr> else cache)
            in case find_root_121 (known_root jvm) (loaded_classes jvm) of
                 None \<Rightarrow> (False, cache')
               | Some mcClass \<Rightarrow>
                   (case singleton_field jvm of
                      None \<Rightarrow> (False, cache')
                    | Some singletonField \<Rightarrow>
                        (case singleton_instance jvm of
                           None \<Rightarrow> (False, cache')
                         | Some mcInst \<Rightarrow>
                             (True, cache'\<lparr>roles := resolve_roles jvm (roles cache')\<rparr>))))"

text \<open>
  The loop of \<^verbatim>\<open>MainThread\<close>: \<open>jvm attempt\<close> is the host at the time of that attempt.
  The result is the sequence of what the thread does: each call of the pass with its
  result and the cache it leaves, and each \<^verbatim>\<open>Sleep\<close> with its milliseconds.
\<close>

datatype 'r discovery_event = Discovery nat bool "'r jni_cache" | Sleep nat

function MainThread_discovery ::
  "(jvm_answers \<Rightarrow> 'r \<Rightarrow> 'r) \<Rightarrow> (nat \<Rightarrow> jvm_answers) \<Rightarrow> nat \<Rightarrow> 'r jni_cache \<Rightarrow>
   'r discovery_event list" where
  "MainThread_discovery resolve_roles jvm attempt cache =
     (if attempt < 5
      then
        (case DiscoverJniMappings resolve_roles (jvm attempt) cache of
           (True, cache') \<Rightarrow> [Discovery attempt True cache']
         | (False, cache') \<Rightarrow>
             Discovery attempt False cache' # Sleep 3000 #
             MainThread_discovery resolve_roles jvm (attempt + 1) cache')
      else [])"
  by pat_completeness auto
termination
  by (relation "measure (\<lambda>(resolve_roles, jvm, attempt, cache). 5 - attempt)") auto

fun passes :: "'r discovery_event list \<Rightarrow> (nat \<times> bool \<times> 'r jni_cache) list" where
  "passes [] = []"
| "passes (Discovery i ok c # tr) = (i, ok, c) # passes tr"
| "passes (Sleep ms # tr) = passes tr"

fun sleeps :: "'r discovery_event list \<Rightarrow> nat list" where
  "sleeps [] = []"
| "sleeps (Discovery i ok c # tr) = sleeps tr"
| "sleeps (Sleep ms # tr) = ms # sleeps tr"

text \<open>
  The shape of a run that starts at \<open>attempt\<close>: failed passes, each followed by one
  sleep of 3000 ms, numbered consecutively, up to a first successful pass or to the bound.
\<close>

fun retry_shape :: "nat \<Rightarrow> 'r discovery_event list \<Rightarrow> bool" where
  "retry_shape attempt [] = (attempt = 5)"
| "retry_shape attempt [Discovery i ok c] = (i = attempt \<and> ok \<and> attempt < 5)"
| "retry_shape attempt (Discovery i ok c # Sleep ms # tr) =
     (i = attempt \<and> \<not> ok \<and> attempt < 5 \<and> ms = 3000 \<and> retry_shape (Suc attempt) tr)"
| "retry_shape attempt tr = False"

text \<open>A host that has its classloader and its root class but no root instance yet, and one that is ready.\<close>

definition jvm_starting :: jvm_answers where
  "jvm_starting =
     \<lparr>jvmti_available = True, game_classloader = Some 11, known_root = True,
      loaded_classes = [], singleton_field = Some 12, singleton_instance = None\<rparr>"

definition jvm_ready :: jvm_answers where
  "jvm_ready = jvm_starting\<lparr>singleton_instance := Some 13\<rparr>"

definition ready_from_third :: "nat \<Rightarrow> jvm_answers" where
  "ready_from_third attempt = (if attempt < 2 then jvm_starting else jvm_ready)"

definition never_ready :: "nat \<Rightarrow> jvm_answers" where
  "never_ready attempt = jvm_starting"

definition mark_resolved :: "jvm_answers \<Rightarrow> bool \<Rightarrow> bool" where
  "mark_resolved jvm r = True"

definition empty_cache :: "bool jni_cache" where
  "empty_cache = \<lparr>g_gameClassLoader = None, roles = False\<rparr>"

section \<open>Discovery pass of bridge.cpp\<close>



record mapping_cache =
  g_mcClass :: "jref option"
  g_mcInstance :: "jref option"
  g_thePlayerField :: "jref option"
  g_theWorldField :: "jref option"
  g_playerEntitiesField :: "jref option"
  g_loadedTileEntityListField :: "jref option"
  g_rotationYawField :: "jref option"
  g_rotationPitchField :: "jref option"
  g_getNameMethod :: "jref option"
  g_getHeldItemMethod :: "jref option"
  g_getTotalArmorValueMethod :: "jref option"
  g_lastTickPosXField :: "jref option"
  g_lastTickPosYField :: "jref option"
  g_lastTickPosZField :: "jref option"




















definition kept :: "jref option \<Rightarrow> jref option \<Rightarrow> bool" where
  "kept before after = (before = None \<or> after = before)"

text \<open>The cache that the first host leaves, and the one that the second host leaves after it.\<close>

definition first_pass_cache :: mapping_cache where
  "first_pass_cache =
     \<lparr>g_mcClass = Some 101, g_mcInstance = Some 102, g_thePlayerField = Some 21,
      g_theWorldField = Some 22, g_playerEntitiesField = Some 30,
      g_loadedTileEntityListField = Some 31, g_rotationYawField = Some 40,
      g_rotationPitchField = Some 41, g_getNameMethod = Some 50, g_getHeldItemMethod = None,
      g_getTotalArmorValueMethod = None, g_lastTickPosXField = None, g_lastTickPosYField = None,
      g_lastTickPosZField = None\<rparr>"

section \<open>Host method invocations of the render callback (bridge.cpp)\<close>

text \<open>
  \<^verbatim>\<open>HookedSwapBuffers\<close> (lines 3230 to 3275) runs on every presented frame and calls
  \<^verbatim>\<open>RenderNametags\<close> (lines 1916 to 2300) while it holds \<^verbatim>\<open>g_jniMutex\<close>. The model is the
  sequence of \<^verbatim>\<open>Call...Method\<close> invocations that one call makes, each with the method id
  it goes through; reads of fields (\<^verbatim>\<open>Get...Field\<close>) are not invocations and are not in
  the sequence, their results are among the answers of the host.

  The cache has, beside the handles of the discovery pass, the other globals that
  \<^verbatim>\<open>RenderNametags\<close> tests.
\<close>

datatype jni_call = CallFloatMethod jref | CallIntMethod jref | CallObjectMethod jref

record accessor_cache = mapping_cache +
  g_mapped :: bool
  g_activeRenderInfoClass :: "jref option"
  g_modelViewField :: "jref option"
  g_projectionField :: "jref option"
  g_floatBufferGet :: "jref option"
  g_listSizeMethod :: "jref option"
  g_listGetMethod :: "jref option"
  g_posXField :: "jref option"
  g_posYField :: "jref option"
  g_posZField :: "jref option"
  g_currentScreenField :: "jref option"
  g_getHealthMethod :: "jref option"
  g_objectHashCodeMethod :: "jref option"

text \<open>
  \<^verbatim>\<open>GetMatrix\<close> (lines 1867 to 1889), called with a non-null environment, class and field:
  the static field holds no buffer, or a buffer whose \<^verbatim>\<open>get\<close> throws at some index or
  never. The loop over the 16 indices returns at the first exception.
\<close>

datatype float_buffer = NullBuffer | Buffer "nat option"

fun GetMatrix_calls :: "jref option \<Rightarrow> float_buffer \<Rightarrow> jni_call list" where
  "GetMatrix_calls floatBufferGet NullBuffer = []"
| "GetMatrix_calls None (Buffer throws_at) = []"
| "GetMatrix_calls (Some get) (Buffer None) = replicate 16 (CallFloatMethod get)"
| "GetMatrix_calls (Some get) (Buffer (Some k)) = replicate (min (k + 1) 16) (CallFloatMethod get)"

text \<open>
  What the host answers for the entity at one index of the list: whether \<^verbatim>\<open>List.get\<close>
  throws, whether the element is null, whether it is the local player. \<open>tagged\<close> is whether
  the entity passes the tests of lines 2109 to 2129 (it projects onto the screen within
  the margin, is at most 48 blocks away and has a non-empty display name), and
  \<open>held_item_calls\<close> are the invocations that \<^verbatim>\<open>GetEntityHeldItemInfo\<close> makes for it.
\<close>

record entity_answers =
  get_throws :: bool
  is_null :: bool
  is_local_player :: bool
  tagged :: bool
  held_item_calls :: "jni_call list"

text \<open>
  What the host answers during one frame. \<open>screen_getName\<close> is the method id that the
  lookup of \<^verbatim>\<open>Class.getName\<close> gives when a screen is open (\<open>None\<close> when no screen is open
  or a lookup gives null).
\<close>

record frame_answers =
  env_attached :: bool
  exception_pending :: bool
  PushLocalFrame_ok :: bool
  modelview_buffer :: float_buffer
  projection_buffer :: float_buffer
  world_present :: bool
  playerEntities_present :: bool
  size_answer :: int
  size_throws :: bool
  screen_getName :: "jref option"
  player_present :: bool
  entity_at :: "nat \<Rightarrow> entity_answers"

fun call_through :: "(jref \<Rightarrow> jni_call) \<Rightarrow> jref option \<Rightarrow> jni_call list" where
  "call_through call None = []"
| "call_through call (Some method) = [call method]"

text \<open>The loop over the entities (lines 2059 to 2271), from index \<open>i\<close> with \<open>count\<close> tags drawn.\<close>

function nametag_loop ::
  "Config \<Rightarrow> 'a accessor_cache_scheme \<Rightarrow> frame_answers \<Rightarrow> jref \<Rightarrow> nat \<Rightarrow> nat \<Rightarrow> jni_call list" where
  "nametag_loop cfg c host listGet i count =
     (if int i < size_answer host \<and> count < 64
      then
        let e = entity_at host i;
            got = [CallObjectMethod listGet]
        in if get_throws e then got
           else if is_null e \<or> is_local_player e
           then got @ nametag_loop cfg c host listGet (i + 1) count
           else
             let read = got @ call_through CallObjectMethod (g_getNameMethod c) @
                        call_through CallFloatMethod (g_getHealthMethod c)
             in if tagged e
                then
                  let drawn = read @
                        (if nametagShowArmor cfg
                         then call_through CallIntMethod (g_getTotalArmorValueMethod c) else []) @
                        held_item_calls e @
                        call_through CallIntMethod (g_objectHashCodeMethod c)
                  in if count + 1 \<ge> 40 then drawn
                     else drawn @ nametag_loop cfg c host listGet (i + 1) (count + 1)
                else read @ nametag_loop cfg c host listGet (i + 1) count
      else [])"
  by pat_completeness auto
termination
  by (relation "measure (\<lambda>(cfg, c, host, listGet, i, count). nat (size_answer host) - i)") auto

text \<open>The two tests on the handles at lines 1927 to 1929.\<close>

definition required_handles :: "'a accessor_cache_scheme \<Rightarrow> bool" where
  "required_handles c =
     (g_mapped c \<and> g_mcInstance c \<noteq> None \<and> g_activeRenderInfoClass c \<noteq> None \<and>
      g_modelViewField c \<noteq> None \<and> g_projectionField c \<noteq> None \<and>
      g_theWorldField c \<noteq> None \<and> g_playerEntitiesField c \<noteq> None \<and>
      g_listSizeMethod c \<noteq> None \<and> g_listGetMethod c \<noteq> None \<and>
      g_thePlayerField c \<noteq> None \<and> g_posXField c \<noteq> None \<and> g_posYField c \<noteq> None \<and>
      g_posZField c \<noteq> None)"

definition RenderNametags_calls ::
  "Config \<Rightarrow> 'a accessor_cache_scheme \<Rightarrow> frame_answers \<Rightarrow> jni_call list" where
  "RenderNametags_calls cfg c host =
     (if \<not> nametags cfg then []
      else if \<not> required_handles c then []
      else if \<not> env_attached host then []
      else if exception_pending host then []
      else if \<not> PushLocalFrame_ok host then []
      else
        case (g_listSizeMethod c, g_listGetMethod c) of
          (Some listSize, Some listGet) \<Rightarrow>
            let matrices = GetMatrix_calls (g_floatBufferGet c) (modelview_buffer host) @
                           GetMatrix_calls (g_floatBufferGet c) (projection_buffer host)
            in if \<not> world_present host then matrices
               else if \<not> playerEntities_present host then matrices
               else
                 let sized = matrices @ [CallIntMethod listSize]
                 in if size_throws host then sized
                    else
                      let screen = (if g_currentScreenField c \<noteq> None
                                    then call_through CallObjectMethod (screen_getName host) else [])
                      in if \<not> player_present host then sized @ screen
                         else sized @ screen @ nametag_loop cfg c host listGet 0 0
        | _ \<Rightarrow> [])"

text \<open>
  The hook: with the font initialised and a window of positive size it runs
  \<^verbatim>\<open>RenderHUD\<close>, then \<^verbatim>\<open>RenderNametags\<close>, then the other overlays; \<open>hud\<close> and \<open>others\<close>
  are the invocations of these.
\<close>

definition HookedSwapBuffers_calls ::
  "bool \<Rightarrow> int \<Rightarrow> int \<Rightarrow> jni_call list \<Rightarrow> jni_call list \<Rightarrow>
   Config \<Rightarrow> 'a accessor_cache_scheme \<Rightarrow> frame_answers \<Rightarrow> jni_call list" where
  "HookedSwapBuffers_calls glInitialized w h hud others cfg c host =
     (if glInitialized \<and> 0 < w \<and> 0 < h
      then hud @ RenderNametags_calls cfg c host @ others
      else [])"

text \<open>The frame reaches the entity list: line 2000.\<close>

definition reaches_list :: "Config \<Rightarrow> 'a accessor_cache_scheme \<Rightarrow> frame_answers \<Rightarrow> bool" where
  "reaches_list cfg c host =
     (nametags cfg \<and> required_handles c \<and> env_attached host \<and> \<not> exception_pending host \<and>
      PushLocalFrame_ok host \<and> world_present host \<and> playerEntities_present host)"

text \<open>
  A frame in a world with the local player and one other player, with nametags enabled,
  over the cache that discovery leaves.
\<close>

definition nametags_on :: Config where
  "nametags_on = default_Config\<lparr>nametags := True\<rparr>"

definition resolved_cache :: accessor_cache where
  "resolved_cache =
     mapping_cache.extend first_pass_cache
       (accessor_cache.fields True (Some 60) (Some 61) (Some 62) (Some 63) (Some 64) (Some 65)
          (Some 66) (Some 67) (Some 68) (Some 69) (Some 70) (Some 71))"

definition other_player :: entity_answers where
  "other_player =
     \<lparr>get_throws = False, is_null = False, is_local_player = False, tagged = True,
      held_item_calls = []\<rparr>"

definition one_player_frame :: frame_answers where
  "one_player_frame =
     \<lparr>env_attached = True, exception_pending = False, PushLocalFrame_ok = True,
      modelview_buffer = NullBuffer, projection_buffer = NullBuffer,
      world_present = True, playerEntities_present = True, size_answer = 2, size_throws = False,
      screen_getName = None, player_present = True,
      entity_at = (\<lambda>i. if i = 0 then other_player\<lparr>is_local_player := True\<rparr> else other_player)\<rparr>"

section \<open>Arithmetic of the floating-point model\<close>

lemmas fp_arith = zero_fp_def one_fp_def uminus_fp_def plus_fp_def minus_fp_def times_fp_def
  divide_fp_def less_fp_def less_eq_fp_def

section \<open>Display-name sanitizer\<close>








section \<open>Control messages and the Config\<close>

lemma getStr_absent: "key_absent line key \<Longrightarrow> getStr line key = []"
  by (simp add: key_absent_def getStr_def)

lemma getStr_121_absent: "key_absent line key \<Longrightarrow> getStr_121 line key = []"
  by (simp add: key_absent_def getStr_121_def)

lemma getBool_absent: "key_absent line key \<Longrightarrow> getBool line key = False"
  by (simp add: getBool_def getStr_absent)

lemma getFloat_absent: "key_absent line key \<Longrightarrow> getFloat stof line key = Some (Finite 0)"
  by (simp add: getFloat_def getStr_absent)

lemma getInt_absent: "key_absent line key \<Longrightarrow> getInt stoi line key = Some (- 1)"
  by (simp add: getInt_def getStr_absent)

lemma getBool_121_absent: "key_absent line key \<Longrightarrow> getBool_121 line key = False"
  by (simp add: getBool_121_def getStr_121_absent)

lemma getFloat_121_absent: "key_absent line key \<Longrightarrow> getFloat_121 stof line key = Finite 0"
  by (simp add: getFloat_121_def getStr_121_absent)

lemma getInt_121_absent: "key_absent line key \<Longrightarrow> getInt_121 stoi line key def = def"
  by (simp add: getInt_121_def getStr_121_absent)

lemma run_assignments_preserves:
  "\<forall>a \<in> set as. \<forall>c. (case a c of None \<Rightarrow> True | Some c' \<Rightarrow> f c' = f c) \<Longrightarrow>
   f (fst (run_assignments as c)) = f c"
proof (induction as arbitrary: c)
  case Nil
  then show ?case by simp
next
  case (Cons a as)
  show ?case
  proof (cases "a c")
    case None
    then show ?thesis by simp
  next
    case (Some c')
    from Cons.prems have "case a c of None \<Rightarrow> True | Some c' \<Rightarrow> f c' = f c" by simp
    with Some have "f c' = f c" by simp
    moreover from Cons.prems have "f (fst (run_assignments as c')) = f c'"
      by (intro Cons.IH) simp
    ultimately show ?thesis using Some by simp
  qed
qed

lemma keybindAutoclicker_kept:
  assumes "key_absent line ''keybindAutoclicker''"
  shows "keybindAutoclicker (fst (ParseConfig stof stoi line c)) = keybindAutoclicker c"
proof (cases "getStr line ''type'' = ''config''")
  case False
  then show ?thesis by (simp add: ParseConfig_def)
next
  case True
  have "keybindAutoclicker (fst (run_assignments (config_assignments stof stoi line) c)) =
        keybindAutoclicker c"
    by (rule run_assignments_preserves)
       (simp add: config_assignments_def getInt_absent[OF assms] case_map_option
             split: option.splits)
  with True show ?thesis by (simp add: ParseConfig_def)
qed

lemma keybindNametags_kept:
  assumes "key_absent line ''keybindNametags''"
  shows "keybindNametags (fst (ParseConfig stof stoi line c)) = keybindNametags c"
proof (cases "getStr line ''type'' = ''config''")
  case False
  then show ?thesis by (simp add: ParseConfig_def)
next
  case True
  have "keybindNametags (fst (run_assignments (config_assignments stof stoi line) c)) =
        keybindNametags c"
    by (rule run_assignments_preserves)
       (simp add: config_assignments_def getInt_absent[OF assms] case_map_option
             split: option.splits)
  with True show ?thesis by (simp add: ParseConfig_def)
qed

lemma keybindClosestPlayer_kept:
  assumes "key_absent line ''keybindClosestPlayer''"
  shows "keybindClosestPlayer (fst (ParseConfig stof stoi line c)) = keybindClosestPlayer c"
proof (cases "getStr line ''type'' = ''config''")
  case False
  then show ?thesis by (simp add: ParseConfig_def)
next
  case True
  have "keybindClosestPlayer (fst (run_assignments (config_assignments stof stoi line) c)) =
        keybindClosestPlayer c"
    by (rule run_assignments_preserves)
       (simp add: config_assignments_def getInt_absent[OF assms] case_map_option
             split: option.splits)
  with True show ?thesis by (simp add: ParseConfig_def)
qed

lemma keybindChestEsp_kept:
  assumes "key_absent line ''keybindChestEsp''"
  shows "keybindChestEsp (fst (ParseConfig stof stoi line c)) = keybindChestEsp c"
proof (cases "getStr line ''type'' = ''config''")
  case False
  then show ?thesis by (simp add: ParseConfig_def)
next
  case True
  have "keybindChestEsp (fst (run_assignments (config_assignments stof stoi line) c)) =
        keybindChestEsp c"
    by (rule run_assignments_preserves)
       (simp add: config_assignments_def getInt_absent[OF assms] case_map_option
             split: option.splits)
  with True show ?thesis by (simp add: ParseConfig_def)
qed

lemma ParseConfig_completed:
  assumes "run_assignments (config_assignments stof stoi line) c = (c', True)"
  shows "armed c' = getBool line ''armed'' \<and> clicking c' = getBool line ''clicking'' \<and>
         getFloat stof line ''minCPS'' = Some (minCPS c') \<and>
         getFloat stof line ''maxCPS'' = Some (maxCPS c') \<and>
         leftClick c' = getBool line ''left'' \<and> rightClick c' = getBool line ''right'' \<and>
         getFloat stof line ''rightMinCPS'' = Some (rightMinCPS c') \<and>
         getFloat stof line ''rightMaxCPS'' = Some (rightMaxCPS c') \<and>
         rightBlockOnly c' = getBool line ''rightBlock'' \<and> jitter c' = getBool line ''jitter'' \<and>
         clickInChests c' = getBool line ''clickInChests'' \<and>
         nametags c' = getBool line ''nametags'' \<and>
         closestPlayerInfo c' = getBool line ''closestPlayerInfo'' \<and>
         nametagShowHealth c' = getBool line ''nametagShowHealth'' \<and>
         nametagShowArmor c' = getBool line ''nametagShowArmor'' \<and>
         chestEsp c' = getBool line ''chestEsp''"
  using assms
  by (clarsimp simp: config_assignments_def split: option.splits if_splits)

lemma ParseConfig_overwrites:
  assumes "getStr line ''type'' = ''config''" and "ParseConfig stof stoi line c = (c', True)"
  shows "(key_absent line ''armed'' \<longrightarrow> \<not> armed c') \<and>
         (key_absent line ''clicking'' \<longrightarrow> \<not> clicking c') \<and>
         (key_absent line ''minCPS'' \<longrightarrow> minCPS c' = Finite 0) \<and>
         (key_absent line ''maxCPS'' \<longrightarrow> maxCPS c' = Finite 0) \<and>
         (key_absent line ''left'' \<longrightarrow> \<not> leftClick c') \<and>
         (key_absent line ''right'' \<longrightarrow> \<not> rightClick c') \<and>
         (key_absent line ''rightMinCPS'' \<longrightarrow> rightMinCPS c' = Finite 0) \<and>
         (key_absent line ''rightMaxCPS'' \<longrightarrow> rightMaxCPS c' = Finite 0) \<and>
         (key_absent line ''rightBlock'' \<longrightarrow> \<not> rightBlockOnly c') \<and>
         (key_absent line ''jitter'' \<longrightarrow> \<not> jitter c') \<and>
         (key_absent line ''clickInChests'' \<longrightarrow> \<not> clickInChests c') \<and>
         (key_absent line ''nametags'' \<longrightarrow> \<not> nametags c') \<and>
         (key_absent line ''closestPlayerInfo'' \<longrightarrow> \<not> closestPlayerInfo c') \<and>
         (key_absent line ''nametagShowHealth'' \<longrightarrow> \<not> nametagShowHealth c') \<and>
         (key_absent line ''nametagShowArmor'' \<longrightarrow> \<not> nametagShowArmor c') \<and>
         (key_absent line ''chestEsp'' \<longrightarrow> \<not> chestEsp c')"
proof -
  from assms have "run_assignments (config_assignments stof stoi line) c = (c', True)"
    by (simp add: ParseConfig_def)
  from ParseConfig_completed[OF this] show ?thesis
    by (intro conjI impI) (simp_all add: getBool_absent getFloat_absent)
qed

lemma ParseConfig_121_overwrites:
  assumes "getStr_121 line ''type'' = ''config''"
  shows "(key_absent line ''armed'' \<longrightarrow> \<not> armed_121 (ParseConfig_121 stof stoi line d)) \<and>
         (key_absent line ''clicking'' \<longrightarrow> \<not> clicking_121 (ParseConfig_121 stof stoi line d)) \<and>
         (key_absent line ''minCPS'' \<longrightarrow> minCPS_121 (ParseConfig_121 stof stoi line d) = Finite 0) \<and>
         (key_absent line ''maxCPS'' \<longrightarrow> maxCPS_121 (ParseConfig_121 stof stoi line d) = Finite 0) \<and>
         (key_absent line ''jitter'' \<longrightarrow> \<not> jitter_121 (ParseConfig_121 stof stoi line d)) \<and>
         (key_absent line ''clickInChests'' \<longrightarrow> \<not> clickInChests_121 (ParseConfig_121 stof stoi line d)) \<and>
         (key_absent line ''aimAssist'' \<longrightarrow> \<not> aimAssist_121 (ParseConfig_121 stof stoi line d)) \<and>
         (key_absent line ''nametags'' \<longrightarrow> \<not> nametags_121 (ParseConfig_121 stof stoi line d)) \<and>
         (key_absent line ''chestEsp'' \<longrightarrow> \<not> chestEsp_121 (ParseConfig_121 stof stoi line d)) \<and>
         (key_absent line ''closestPlayerInfo'' \<longrightarrow>
            \<not> closestPlayer_121 (ParseConfig_121 stof stoi line d)) \<and>
         (key_absent line ''nametagShowHealth'' \<longrightarrow>
            \<not> nametagHealth_121 (ParseConfig_121 stof stoi line d)) \<and>
         (key_absent line ''nametagShowArmor'' \<longrightarrow>
            \<not> nametagArmor_121 (ParseConfig_121 stof stoi line d)) \<and>
         (key_absent line ''right'' \<longrightarrow> \<not> rightClick_121 (ParseConfig_121 stof stoi line d)) \<and>
         (key_absent line ''rightMinCPS'' \<longrightarrow>
            rightMinCPS_121 (ParseConfig_121 stof stoi line d) = Finite 0) \<and>
         (key_absent line ''rightMaxCPS'' \<longrightarrow>
            rightMaxCPS_121 (ParseConfig_121 stof stoi line d) = Finite 0) \<and>
         (key_absent line ''rightBlock'' \<longrightarrow> \<not> rightBlockOnly_121 (ParseConfig_121 stof stoi line d)) \<and>
         (key_absent line ''breakBlocks'' \<longrightarrow> \<not> breakBlocks_121 (ParseConfig_121 stof stoi line d)) \<and>
         (key_absent line ''gtbHelper'' \<longrightarrow> \<not> gtbHelper_121 (ParseConfig_121 stof stoi line d)) \<and>
         (key_absent line ''gtbHint'' \<longrightarrow> gtbHint_121 (ParseConfig_121 stof stoi line d) = []) \<and>
         (key_absent line ''gtbCount'' \<longrightarrow> gtbCount_121 (ParseConfig_121 stof stoi line d) = 0) \<and>
         (key_absent line ''gtbPreview'' \<longrightarrow> gtbPreview_121 (ParseConfig_121 stof stoi line d) = [])"
  using assms
  by (simp add: ParseConfig_121_def getBool_121_absent getFloat_121_absent getInt_121_absent
        getStr_121_absent)

lemma ParseConfig_121_counts_kept:
  "key_absent line ''nametagMaxCount'' \<Longrightarrow>
     nametagMaxCount_121 (ParseConfig_121 stof stoi line d) =
       (if getStr_121 line ''type'' = ''config''
        then max 1 (min 20 (nametagMaxCount_121 d)) else nametagMaxCount_121 d)"
  "key_absent line ''chestEspMaxCount'' \<Longrightarrow>
     chestEspMaxCount_121 (ParseConfig_121 stof stoi line d) =
       (if getStr_121 line ''type'' = ''config''
        then max 1 (min 20 (chestEspMaxCount_121 d)) else chestEspMaxCount_121 d)"
  by (simp_all add: ParseConfig_121_def getInt_121_absent)

text \<open>
  C1, as amended. A message whose type is not \<^verbatim>\<open>config\<close> changes nothing. A config
  message keeps the previous value of a field whose key is absent only for the four keybind
  fields of bridge.cpp and for \<^verbatim>\<open>nametagMaxCount\<close> and \<^verbatim>\<open>chestEspMaxCount\<close> of
  bridge_121.cpp (clamped to 1..20). Every other field is assigned on every config message:
  with its key absent, a boolean field becomes false, a float field 0, \<^verbatim>\<open>gtbCount\<close> 0 and
  the \<^verbatim>\<open>gtb\<close> strings empty (in bridge.cpp, when no conversion throws).
\<close>

theorem config_update_amended:
  "(getStr line ''type'' \<noteq> ''config'' \<longrightarrow> ParseConfig stof stoi line c = (c, True)) \<and>
   (getStr_121 line ''type'' \<noteq> ''config'' \<longrightarrow> ParseConfig_121 stof stoi line d = d) \<and>
   (key_absent line ''keybindAutoclicker'' \<longrightarrow>
      keybindAutoclicker (fst (ParseConfig stof stoi line c)) = keybindAutoclicker c) \<and>
   (key_absent line ''keybindNametags'' \<longrightarrow>
      keybindNametags (fst (ParseConfig stof stoi line c)) = keybindNametags c) \<and>
   (key_absent line ''keybindClosestPlayer'' \<longrightarrow>
      keybindClosestPlayer (fst (ParseConfig stof stoi line c)) = keybindClosestPlayer c) \<and>
   (key_absent line ''keybindChestEsp'' \<longrightarrow>
      keybindChestEsp (fst (ParseConfig stof stoi line c)) = keybindChestEsp c) \<and>
   (key_absent line ''nametagMaxCount'' \<longrightarrow>
      nametagMaxCount_121 (ParseConfig_121 stof stoi line d) =
        (if getStr_121 line ''type'' = ''config''
         then max 1 (min 20 (nametagMaxCount_121 d)) else nametagMaxCount_121 d)) \<and>
   (key_absent line ''chestEspMaxCount'' \<longrightarrow>
      chestEspMaxCount_121 (ParseConfig_121 stof stoi line d) =
        (if getStr_121 line ''type'' = ''config''
         then max 1 (min 20 (chestEspMaxCount_121 d)) else chestEspMaxCount_121 d)) \<and>
   (getStr line ''type'' = ''config'' \<and> ParseConfig stof stoi line c = (c', True) \<longrightarrow>
      (key_absent line ''armed'' \<longrightarrow> \<not> armed c') \<and>
      (key_absent line ''clicking'' \<longrightarrow> \<not> clicking c') \<and>
      (key_absent line ''minCPS'' \<longrightarrow> minCPS c' = Finite 0) \<and>
      (key_absent line ''maxCPS'' \<longrightarrow> maxCPS c' = Finite 0) \<and>
      (key_absent line ''left'' \<longrightarrow> \<not> leftClick c') \<and>
      (key_absent line ''right'' \<longrightarrow> \<not> rightClick c') \<and>
      (key_absent line ''rightMinCPS'' \<longrightarrow> rightMinCPS c' = Finite 0) \<and>
      (key_absent line ''rightMaxCPS'' \<longrightarrow> rightMaxCPS c' = Finite 0) \<and>
      (key_absent line ''rightBlock'' \<longrightarrow> \<not> rightBlockOnly c') \<and>
      (key_absent line ''jitter'' \<longrightarrow> \<not> jitter c') \<and>
      (key_absent line ''clickInChests'' \<longrightarrow> \<not> clickInChests c') \<and>
      (key_absent line ''nametags'' \<longrightarrow> \<not> nametags c') \<and>
      (key_absent line ''closestPlayerInfo'' \<longrightarrow> \<not> closestPlayerInfo c') \<and>
      (key_absent line ''nametagShowHealth'' \<longrightarrow> \<not> nametagShowHealth c') \<and>
      (key_absent line ''nametagShowArmor'' \<longrightarrow> \<not> nametagShowArmor c') \<and>
      (key_absent line ''chestEsp'' \<longrightarrow> \<not> chestEsp c')) \<and>
   (getStr_121 line ''type'' = ''config'' \<longrightarrow>
      (key_absent line ''armed'' \<longrightarrow> \<not> armed_121 (ParseConfig_121 stof stoi line d)) \<and>
      (key_absent line ''clicking'' \<longrightarrow> \<not> clicking_121 (ParseConfig_121 stof stoi line d)) \<and>
      (key_absent line ''minCPS'' \<longrightarrow> minCPS_121 (ParseConfig_121 stof stoi line d) = Finite 0) \<and>
      (key_absent line ''maxCPS'' \<longrightarrow> maxCPS_121 (ParseConfig_121 stof stoi line d) = Finite 0) \<and>
      (key_absent line ''jitter'' \<longrightarrow> \<not> jitter_121 (ParseConfig_121 stof stoi line d)) \<and>
      (key_absent line ''clickInChests'' \<longrightarrow> \<not> clickInChests_121 (ParseConfig_121 stof stoi line d)) \<and>
      (key_absent line ''aimAssist'' \<longrightarrow> \<not> aimAssist_121 (ParseConfig_121 stof stoi line d)) \<and>
      (key_absent line ''nametags'' \<longrightarrow> \<not> nametags_121 (ParseConfig_121 stof stoi line d)) \<and>
      (key_absent line ''chestEsp'' \<longrightarrow> \<not> chestEsp_121 (ParseConfig_121 stof stoi line d)) \<and>
      (key_absent line ''closestPlayerInfo'' \<longrightarrow>
         \<not> closestPlayer_121 (ParseConfig_121 stof stoi line d)) \<and>
      (key_absent line ''nametagShowHealth'' \<longrightarrow>
         \<not> nametagHealth_121 (ParseConfig_121 stof stoi line d)) \<and>
      (key_absent line ''nametagShowArmor'' \<longrightarrow>
         \<not> nametagArmor_121 (ParseConfig_121 stof stoi line d)) \<and>
      (key_absent line ''right'' \<longrightarrow> \<not> rightClick_121 (ParseConfig_121 stof stoi line d)) \<and>
      (key_absent line ''rightMinCPS'' \<longrightarrow>
         rightMinCPS_121 (ParseConfig_121 stof stoi line d) = Finite 0) \<and>
      (key_absent line ''rightMaxCPS'' \<longrightarrow>
         rightMaxCPS_121 (ParseConfig_121 stof stoi line d) = Finite 0) \<and>
      (key_absent line ''rightBlock'' \<longrightarrow> \<not> rightBlockOnly_121 (ParseConfig_121 stof stoi line d)) \<and>
      (key_absent line ''breakBlocks'' \<longrightarrow> \<not> breakBlocks_121 (ParseConfig_121 stof stoi line d)) \<and>
      (key_absent line ''gtbHelper'' \<longrightarrow> \<not> gtbHelper_121 (ParseConfig_121 stof stoi line d)) \<and>
      (key_absent line ''gtbHint'' \<longrightarrow> gtbHint_121 (ParseConfig_121 stof stoi line d) = []) \<and>
      (key_absent line ''gtbCount'' \<longrightarrow> gtbCount_121 (ParseConfig_121 stof stoi line d) = 0) \<and>
      (key_absent line ''gtbPreview'' \<longrightarrow> gtbPreview_121 (ParseConfig_121 stof stoi line d) = []))"
proof (intro conjI)
  show "getStr line ''type'' \<noteq> ''config'' \<longrightarrow> ParseConfig stof stoi line c = (c, True)"
    by (simp add: ParseConfig_def)
  show "getStr_121 line ''type'' \<noteq> ''config'' \<longrightarrow> ParseConfig_121 stof stoi line d = d"
    by (simp add: ParseConfig_121_def)
  show "key_absent line ''keybindAutoclicker'' \<longrightarrow>
      keybindAutoclicker (fst (ParseConfig stof stoi line c)) = keybindAutoclicker c"
    using keybindAutoclicker_kept by blast
  show "key_absent line ''keybindNametags'' \<longrightarrow>
      keybindNametags (fst (ParseConfig stof stoi line c)) = keybindNametags c"
    using keybindNametags_kept by blast
  show "key_absent line ''keybindClosestPlayer'' \<longrightarrow>
      keybindClosestPlayer (fst (ParseConfig stof stoi line c)) = keybindClosestPlayer c"
    using keybindClosestPlayer_kept by blast
  show "key_absent line ''keybindChestEsp'' \<longrightarrow>
      keybindChestEsp (fst (ParseConfig stof stoi line c)) = keybindChestEsp c"
    using keybindChestEsp_kept by blast
  show "key_absent line ''nametagMaxCount'' \<longrightarrow>
      nametagMaxCount_121 (ParseConfig_121 stof stoi line d) =
        (if getStr_121 line ''type'' = ''config''
         then max 1 (min 20 (nametagMaxCount_121 d)) else nametagMaxCount_121 d)"
    using ParseConfig_121_counts_kept(1) by blast
  show "key_absent line ''chestEspMaxCount'' \<longrightarrow>
      chestEspMaxCount_121 (ParseConfig_121 stof stoi line d) =
        (if getStr_121 line ''type'' = ''config''
         then max 1 (min 20 (chestEspMaxCount_121 d)) else chestEspMaxCount_121 d)"
    using ParseConfig_121_counts_kept(2) by blast
next
  show "getStr line ''type'' = ''config'' \<and> ParseConfig stof stoi line c = (c', True) \<longrightarrow>
      (key_absent line ''armed'' \<longrightarrow> \<not> armed c') \<and>
      (key_absent line ''clicking'' \<longrightarrow> \<not> clicking c') \<and>
      (key_absent line ''minCPS'' \<longrightarrow> minCPS c' = Finite 0) \<and>
      (key_absent line ''maxCPS'' \<longrightarrow> maxCPS c' = Finite 0) \<and>
      (key_absent line ''left'' \<longrightarrow> \<not> leftClick c') \<and>
      (key_absent line ''right'' \<longrightarrow> \<not> rightClick c') \<and>
      (key_absent line ''rightMinCPS'' \<longrightarrow> rightMinCPS c' = Finite 0) \<and>
      (key_absent line ''rightMaxCPS'' \<longrightarrow> rightMaxCPS c' = Finite 0) \<and>
      (key_absent line ''rightBlock'' \<longrightarrow> \<not> rightBlockOnly c') \<and>
      (key_absent line ''jitter'' \<longrightarrow> \<not> jitter c') \<and>
      (key_absent line ''clickInChests'' \<longrightarrow> \<not> clickInChests c') \<and>
      (key_absent line ''nametags'' \<longrightarrow> \<not> nametags c') \<and>
      (key_absent line ''closestPlayerInfo'' \<longrightarrow> \<not> closestPlayerInfo c') \<and>
      (key_absent line ''nametagShowHealth'' \<longrightarrow> \<not> nametagShowHealth c') \<and>
      (key_absent line ''nametagShowArmor'' \<longrightarrow> \<not> nametagShowArmor c') \<and>
      (key_absent line ''chestEsp'' \<longrightarrow> \<not> chestEsp c')"
  proof (rule impI, erule conjE)
    assume "getStr line ''type'' = ''config''" "ParseConfig stof stoi line c = (c', True)"
    then show "(key_absent line ''armed'' \<longrightarrow> \<not> armed c') \<and>
      (key_absent line ''clicking'' \<longrightarrow> \<not> clicking c') \<and>
      (key_absent line ''minCPS'' \<longrightarrow> minCPS c' = Finite 0) \<and>
      (key_absent line ''maxCPS'' \<longrightarrow> maxCPS c' = Finite 0) \<and>
      (key_absent line ''left'' \<longrightarrow> \<not> leftClick c') \<and>
      (key_absent line ''right'' \<longrightarrow> \<not> rightClick c') \<and>
      (key_absent line ''rightMinCPS'' \<longrightarrow> rightMinCPS c' = Finite 0) \<and>
      (key_absent line ''rightMaxCPS'' \<longrightarrow> rightMaxCPS c' = Finite 0) \<and>
      (key_absent line ''rightBlock'' \<longrightarrow> \<not> rightBlockOnly c') \<and>
      (key_absent line ''jitter'' \<longrightarrow> \<not> jitter c') \<and>
      (key_absent line ''clickInChests'' \<longrightarrow> \<not> clickInChests c') \<and>
      (key_absent line ''nametags'' \<longrightarrow> \<not> nametags c') \<and>
      (key_absent line ''closestPlayerInfo'' \<longrightarrow> \<not> closestPlayerInfo c') \<and>
      (key_absent line ''nametagShowHealth'' \<longrightarrow> \<not> nametagShowHealth c') \<and>
      (key_absent line ''nametagShowArmor'' \<longrightarrow> \<not> nametagShowArmor c') \<and>
      (key_absent line ''chestEsp'' \<longrightarrow> \<not> chestEsp c')"
      by (rule ParseConfig_overwrites)
  qed
qed (rule impI, rule ParseConfig_121_overwrites, assumption)

theorem config_update_amended_witness:
  "getStr armed_only_message ''type'' = ''config'' \<and>
   key_absent armed_only_message ''keybindAutoclicker'' \<and>
   key_absent armed_only_message ''jitter'' \<and>
   key_absent armed_only_message ''nametagMaxCount'' \<and>
   ParseConfig stof_unused stoi_unused armed_only_message default_Config =
     (fst (ParseConfig stof_unused stoi_unused armed_only_message default_Config), True) \<and>
   keybindAutoclicker (fst (ParseConfig stof_unused stoi_unused armed_only_message default_Config)) = 0xC0 \<and>
   \<not> jitter (fst (ParseConfig stof_unused stoi_unused armed_only_message default_Config)) \<and>
   nametagMaxCount_121 (ParseConfig_121 stof_unused stoi_unused armed_only_message default_Config_121) = 8 \<and>
   \<not> nametagHealth_121 (ParseConfig_121 stof_unused stoi_unused armed_only_message default_Config_121)"
proof -
  have t: "getStr armed_only_message ''type'' = ''config''"
    and t121: "getStr_121 armed_only_message ''type'' = ''config''"
    and k: "key_absent armed_only_message ''keybindAutoclicker''"
    and j: "key_absent armed_only_message ''jitter''"
    and n: "key_absent armed_only_message ''nametagMaxCount''"
    and h: "key_absent armed_only_message ''nametagShowHealth''"
    by code_simp+
  have completed: "ParseConfig stof_unused stoi_unused armed_only_message default_Config =
     (fst (ParseConfig stof_unused stoi_unused armed_only_message default_Config), True)"
    by code_simp
  have defaults: "keybindAutoclicker default_Config = 0xC0" "nametagMaxCount_121 default_Config_121 = 8"
    by (simp_all add: default_Config_def default_Config_121_def)
  from config_update_amended[of armed_only_message stof_unused stoi_unused default_Config
      default_Config_121 "fst (ParseConfig stof_unused stoi_unused armed_only_message default_Config)"]
    t t121 k j n h completed defaults
  show ?thesis by simp
qed

text \<open>
  C1 as stated fails on both bridges: the message \<^verbatim>\<open>{"type":"config","armed":true}\<close>
  alone, sent to the default Config of bridge.cpp (jitter on, 10 to 14 clicks per second),
  switches jitter off and sets the minimum rate to 0; in bridge_121.cpp it switches the
  health line of the nametags off.
\<close>

theorem config_update_counterexample:
  "key_absent armed_only_message ''jitter'' \<and> key_absent armed_only_message ''minCPS'' \<and>
   key_absent armed_only_message ''nametagShowHealth'' \<and>
   jitter default_Config \<and>
   \<not> jitter (fst (ParseConfig stof_unused stoi_unused armed_only_message default_Config)) \<and>
   minCPS default_Config = Finite 10 \<and>
   minCPS (fst (ParseConfig stof_unused stoi_unused armed_only_message default_Config)) = Finite 0 \<and>
   nametagHealth_121 default_Config_121 \<and>
   \<not> nametagHealth_121 (ParseConfig_121 stof_unused stoi_unused armed_only_message default_Config_121)"
  by code_simp

section \<open>Root singleton discovery: the scans\<close>












section \<open>Coordinate projector\<close>

lemma fp_nonpositive_below: "a \<le> Finite 0 \<Longrightarrow> a < Finite 0.1" for a :: fp
  by (cases a) (auto simp: fp_arith)

text \<open>
  C3. Both projection strategies fail on a point behind the camera plane. The matrix
  strategy returns false whenever the w component after the projection matrix is below its
  epsilon (0.02 in bridge.cpp, 0.1 in bridge_121.cpp, which also rejects a non-finite w);
  the angle-reconstruction strategy returns false whenever the forward component of the
  camera-relative offset is non-positive (indeed whenever it is below 0.1) or non-finite.
\<close>

theorem behind_camera_rejected:
  "(WorldToScreen_pW x y z view proj < Finite 0.02 \<longrightarrow>
      WorldToScreen x y z view proj w h = None) \<and>
   (\<not> isfinite (WorldToScreen_121_ndcW pos camPos view proj) \<or>
    WorldToScreen_121_ndcW pos camPos view proj < Finite 0.1 \<longrightarrow>
      WorldToScreen_121 pos camPos view proj winW winH = None) \<and>
   (\<not> isfinite (WorldToScreen_Angles_vFwd pos camPos yawDeg pitchDeg) \<or>
    WorldToScreen_Angles_vFwd pos camPos yawDeg pitchDeg \<le> Finite 0 \<or>
    WorldToScreen_Angles_vFwd pos camPos yawDeg pitchDeg < Finite 0.1 \<longrightarrow>
      WorldToScreen_Angles pos camPos yawDeg pitchDeg fovDeg winW winH = None)"
proof (intro conjI impI)
  assume "WorldToScreen_pW x y z view proj < Finite 0.02"
  then show "WorldToScreen x y z view proj w h = None"
    by (simp add: WorldToScreen_def WorldToScreen_pW_def Let_def)
next
  assume "\<not> isfinite (WorldToScreen_121_ndcW pos camPos view proj) \<or>
    WorldToScreen_121_ndcW pos camPos view proj < Finite 0.1"
  then show "WorldToScreen_121 pos camPos view proj winW winH = None"
    by (simp add: WorldToScreen_121_def WorldToScreen_121_ndcW_def Let_def)
next
  assume "\<not> isfinite (WorldToScreen_Angles_vFwd pos camPos yawDeg pitchDeg) \<or>
    WorldToScreen_Angles_vFwd pos camPos yawDeg pitchDeg \<le> Finite 0 \<or>
    WorldToScreen_Angles_vFwd pos camPos yawDeg pitchDeg < Finite 0.1"
  then have "\<not> isfinite (WorldToScreen_Angles_vFwd pos camPos yawDeg pitchDeg) \<or>
    WorldToScreen_Angles_vFwd pos camPos yawDeg pitchDeg < Finite 0.1"
    using fp_nonpositive_below by blast
  then show "WorldToScreen_Angles pos camPos yawDeg pitchDeg fovDeg winW winH = None"
    by (simp add: WorldToScreen_Angles_def WorldToScreen_Angles_vFwd_def Let_def)
qed

theorem behind_camera_rejected_witness:
  "WorldToScreen_pW (Finite 0) (Finite 0) (Finite 10) identity_matrix perspective_like < Finite 0.02 \<and>
   WorldToScreen (Finite 0) (Finite 0) (Finite 10) identity_matrix perspective_like 1920 1080 = None \<and>
   WorldToScreen_121_ndcW ahead_10 origin identity_matrix perspective_like < Finite 0.1 \<and>
   WorldToScreen_121 ahead_10 origin identity_matrix perspective_like 1920 1080 = None \<and>
   WorldToScreen_Angles_vFwd behind_10 origin (Finite 0) (Finite 0) \<le> Finite 0 \<and>
   WorldToScreen_Angles behind_10 origin (Finite 0) (Finite 0) (Finite 70) 1920 1080 = None"
proof -
  have a: "WorldToScreen_pW (Finite 0) (Finite 0) (Finite 10) identity_matrix perspective_like
             < Finite 0.02"
    by (simp add: WorldToScreen_pW_def Let_def identity_matrix_def perspective_like_def fp_arith)
  have b: "WorldToScreen_121_ndcW ahead_10 origin identity_matrix perspective_like < Finite 0.1"
    by (simp add: WorldToScreen_121_ndcW_def Let_def identity_matrix_def perspective_like_def
          ahead_10_def origin_def fp_arith)
  have c: "WorldToScreen_Angles_vFwd behind_10 origin (Finite 0) (Finite 0) \<le> Finite 0"
    by (simp add: WorldToScreen_Angles_vFwd_def Let_def behind_10_def origin_def fp_arith)
  from a b c
    behind_camera_rejected[of "Finite 0" "Finite 0" "Finite 10" identity_matrix perspective_like
      1920 1080 ahead_10 origin 1920 1080 "Finite 0" "Finite 0" "Finite 70"]
    behind_camera_rejected[of "Finite 0" "Finite 0" "Finite 10" identity_matrix perspective_like
      1920 1080 behind_10 origin 1920 1080 "Finite 0" "Finite 0" "Finite 70"]
  show ?thesis by simp
qed

lemma half_fov_70:
  "0 < sin (70 * 0.5 * (3.14159265 / 180) :: real)"
  "0 < cos (70 * 0.5 * (3.14159265 / 180) :: real)"
proof -
  have a: "(0::real) < 70 * 0.5 * (3.14159265 / 180)" by simp
  have b: "(70 * 0.5 * (3.14159265 / 180) :: real) < 1" by simp
  have c: "(1::real) \<le> pi / 2" using pi_ge_two by simp
  from a b c show "0 < sin (70 * 0.5 * (3.14159265 / 180) :: real)"
    by (intro sin_gt_zero) auto
  from a b c show "0 < cos (70 * 0.5 * (3.14159265 / 180) :: real)"
    by (intro cos_gt_zero) auto
qed

text \<open>
  C5. With the camera at the origin, yaw 0, pitch 0, a vertical field of view of 70 degrees
  and a viewport of 1920 by 1080, the angle-reconstruction projector succeeds on the point
  (0, 0, 10) and returns the centre of the screen, (960, 540).
\<close>

theorem directly_ahead_is_screen_centre:
  "WorldToScreen_Angles ahead_10 origin (Finite 0) (Finite 0) (Finite 70) 1920 1080 =
     Some (Finite 960, Finite 540)"
  using half_fov_70
  by (simp add: WorldToScreen_Angles_def Let_def fp_arith tanf_def fp_of_int_def ahead_10_def
        origin_def)

theorem directly_ahead_is_screen_centre_witness:
  "WorldToScreen_Angles_vFwd ahead_10 origin (Finite 0) (Finite 0) = Finite 10 \<and>
   map_option fst (WorldToScreen_Angles ahead_10 origin (Finite 0) (Finite 0) (Finite 70) 1920 1080) =
     Some (fp_of_int (1920 div 2)) \<and>
   map_option snd (WorldToScreen_Angles ahead_10 origin (Finite 0) (Finite 0) (Finite 70) 1920 1080) =
     Some (fp_of_int (1080 div 2))"
proof -
  have "WorldToScreen_Angles_vFwd ahead_10 origin (Finite 0) (Finite 0) = Finite 10"
    by (simp add: WorldToScreen_Angles_vFwd_def Let_def ahead_10_def origin_def fp_arith)
  with directly_ahead_is_screen_centre show ?thesis
    by (simp add: fp_of_int_def)
qed

section \<open>Overlay smoothing\<close>

lemma contraction_limit:
  fixes e d :: "nat \<Rightarrow> real"
  assumes c0: "0 \<le> c" and c1: "c < 1" and d: "d \<longlonglongrightarrow> 0"
    and step: "\<And>n. \<bar>e (Suc n)\<bar> \<le> c * \<bar>e n\<bar> + \<bar>d n\<bar>"
  shows "e \<longlonglongrightarrow> 0"
proof (rule LIMSEQ_I)
  fix r :: real
  assume r: "0 < r"
  define \<delta> where "\<delta> = r * (1 - c) / 2"
  have \<delta>: "0 < \<delta>" using r c1 by (simp add: \<delta>_def)
  from LIMSEQ_D[OF d \<delta>] obtain N where N: "\<And>n. N \<le> n \<Longrightarrow> \<bar>d n\<bar> < \<delta>"
    by auto
  have bound: "\<bar>e (N + k)\<bar> \<le> c ^ k * \<bar>e N\<bar> + r / 2" for k
  proof (induction k)
    case 0
    show ?case using r by simp
  next
    case (Suc k)
    have "\<bar>e (N + Suc k)\<bar> \<le> c * \<bar>e (N + k)\<bar> + \<bar>d (N + k)\<bar>"
      using step[of "N + k"] by simp
    also have "\<dots> \<le> c * (c ^ k * \<bar>e N\<bar> + r / 2) + \<delta>"
      using Suc N[of "N + k"] c0 by (intro add_mono mult_left_mono) auto
    also have "\<dots> = c ^ Suc k * \<bar>e N\<bar> + r / 2"
      by (simp add: \<delta>_def field_simps)
    finally show ?case .
  qed
  have "(\<lambda>k. c ^ k) \<longlonglongrightarrow> 0"
    using c0 c1 by (rule LIMSEQ_realpow_zero)
  then have "(\<lambda>k. c ^ k * \<bar>e N\<bar>) \<longlonglongrightarrow> 0"
    by (rule tendsto_mult_left_zero)
  from LIMSEQ_D[OF this, of "r / 2"] r obtain K where K: "\<And>k. K \<le> k \<Longrightarrow> \<bar>c ^ k * \<bar>e N\<bar>\<bar> < r / 2"
    by auto
  show "\<exists>no. \<forall>n\<ge>no. norm (e n - 0) < r"
  proof (intro exI allI impI)
    fix n
    assume n: "N + K \<le> n"
    define k where "k = n - N"
    from n have nk: "n = N + k" and kK: "K \<le> k" by (simp_all add: k_def)
    have "\<bar>e n\<bar> \<le> c ^ k * \<bar>e N\<bar> + r / 2" unfolding nk by (rule bound)
    also have "\<dots> < r / 2 + r / 2" using K[OF kK] by simp
    finally show "norm (e n - 0) < r" by simp
  qed
qed

lemma tag_first_sighting:
  "\<not> ts_init s \<Longrightarrow>
   ts_x (tag_smooth_update s px py d f) = px \<and> ts_y (tag_smooth_update s px py d f) = py \<and>
   ts_init (tag_smooth_update s px py d f)"
  by (simp add: tag_smooth_update_def)

lemma tag_snap:
  "ts_init s \<Longrightarrow> Finite 24000 < tag_deltaSq s px py \<Longrightarrow>
   ts_x (tag_smooth_update s px py d f) = px \<and> ts_y (tag_smooth_update s px py d f) = py"
  by (simp add: tag_smooth_update_def tag_deltaSq_def Let_def)

lemma tag_step:
  assumes "ts_init s" and "ts_x s = Finite u" and "ts_y s = Finite v"
  shows "\<exists>\<beta>. 0.12 \<le> \<beta> \<and> \<beta> \<le> 1 \<and>
           ts_x (tag_smooth_update s (Finite p) (Finite q) d f) = Finite (u + \<beta> * (p - u)) \<and>
           ts_y (tag_smooth_update s (Finite p) (Finite q) d f) = Finite (v + \<beta> * (q - v)) \<and>
           ts_init (tag_smooth_update s (Finite p) (Finite q) d f)"
proof -
  let ?dsq = "(p - u) * (p - u) + (q - v) * (q - v)"
  consider (snap) "24000 < ?dsq"
    | (tiny) "\<not> 24000 < ?dsq" "?dsq < 6"
    | (near) "\<not> 24000 < ?dsq" "\<not> ?dsq < 6" "d < Finite 12"
    | (far) "\<not> 24000 < ?dsq" "\<not> ?dsq < 6" "\<not> d < Finite 12"
    by blast
  then show ?thesis
  proof cases
    case snap
    with assms have "(1::real) \<le> 1 \<and> (0.12::real) \<le> 1 \<and>
        ts_x (tag_smooth_update s (Finite p) (Finite q) d f) = Finite (u + 1 * (p - u)) \<and>
        ts_y (tag_smooth_update s (Finite p) (Finite q) d f) = Finite (v + 1 * (q - v)) \<and>
        ts_init (tag_smooth_update s (Finite p) (Finite q) d f)"
      by (simp add: tag_smooth_update_def Let_def fp_arith)
    then show ?thesis by blast
  next
    case tiny
    with assms have "(0.12::real) \<le> 0.22 \<and> (0.22::real) \<le> 1 \<and>
        ts_x (tag_smooth_update s (Finite p) (Finite q) d f) = Finite (u + 0.22 * (p - u)) \<and>
        ts_y (tag_smooth_update s (Finite p) (Finite q) d f) = Finite (v + 0.22 * (q - v)) \<and>
        ts_init (tag_smooth_update s (Finite p) (Finite q) d f)"
      by (simp add: tag_smooth_update_def Let_def fp_arith mult.commute)
    then show ?thesis by blast
  next
    case near
    with assms have "(0.12::real) \<le> 0.14 \<and> (0.14::real) \<le> 1 \<and>
        ts_x (tag_smooth_update s (Finite p) (Finite q) d f) = Finite (u + 0.14 * (p - u)) \<and>
        ts_y (tag_smooth_update s (Finite p) (Finite q) d f) = Finite (v + 0.14 * (q - v)) \<and>
        ts_init (tag_smooth_update s (Finite p) (Finite q) d f)"
      by (simp add: tag_smooth_update_def Let_def fp_arith mult.commute)
    then show ?thesis by blast
  next
    case far
    with assms have "(0.12::real) \<le> 0.12 \<and> (0.12::real) \<le> 1 \<and>
        ts_x (tag_smooth_update s (Finite p) (Finite q) d f) = Finite (u + 0.12 * (p - u)) \<and>
        ts_y (tag_smooth_update s (Finite p) (Finite q) d f) = Finite (v + 0.12 * (q - v)) \<and>
        ts_init (tag_smooth_update s (Finite p) (Finite q) d f)"
      by (simp add: tag_smooth_update_def Let_def fp_arith mult.commute)
    then show ?thesis by blast
  qed
qed

lemma blend_error:
  fixes u p a \<beta> c :: real
  assumes "1 - c \<le> \<beta>" "\<beta> \<le> 1" "0 \<le> c" "c \<le> 1"
  shows "\<bar>u + \<beta> * (p - u) - a\<bar> \<le> c * \<bar>u - a\<bar> + \<bar>p - a\<bar>"
proof -
  have "u + \<beta> * (p - u) - a = (1 - \<beta>) * (u - a) + \<beta> * (p - a)"
    by (simp add: algebra_simps)
  then have "\<bar>u + \<beta> * (p - u) - a\<bar> \<le> \<bar>(1 - \<beta>) * (u - a)\<bar> + \<bar>\<beta> * (p - a)\<bar>"
    by (simp add: abs_triangle_ineq)
  also have "\<dots> = (1 - \<beta>) * \<bar>u - a\<bar> + \<beta> * \<bar>p - a\<bar>"
    using assms by (simp add: abs_mult)
  also have "\<dots> \<le> c * \<bar>u - a\<bar> + 1 * \<bar>p - a\<bar>"
    using assms by (intro add_mono mult_right_mono) auto
  finally show ?thesis by simp
qed

lemma tag_frames_finite:
  assumes "ts_init s \<longrightarrow> isfinite (ts_x s) \<and> isfinite (ts_y s)"
  shows "ts_init (tag_frames s (\<lambda>n. Finite (p n)) (\<lambda>n. Finite (q n)) d f (Suc n)) \<and>
         isfinite (ts_x (tag_frames s (\<lambda>n. Finite (p n)) (\<lambda>n. Finite (q n)) d f (Suc n))) \<and>
         isfinite (ts_y (tag_frames s (\<lambda>n. Finite (p n)) (\<lambda>n. Finite (q n)) d f (Suc n)))"
proof (induction n)
  case 0
  show ?case
  proof (cases "ts_init s")
    case False
    then show ?thesis using tag_first_sighting[OF False, of "Finite (p 0)" "Finite (q 0)"] by simp
  next
    case True
    with assms obtain u v where "ts_x s = Finite u" "ts_y s = Finite v"
      by (cases "ts_x s"; cases "ts_y s") auto
    from tag_step[OF True this, of "p 0" "q 0" "d 0" "f 0"] show ?thesis by auto
  qed
next
  case (Suc n)
  let ?t = "tag_frames s (\<lambda>n. Finite (p n)) (\<lambda>n. Finite (q n)) d f (Suc n)"
  from Suc obtain u v where uv: "ts_x ?t = Finite u" "ts_y ?t = Finite v" and i: "ts_init ?t"
    by (cases "ts_x ?t"; cases "ts_y ?t") auto
  from tag_step[OF i uv, of "p (Suc n)" "q (Suc n)" "d (Suc n)" "f (Suc n)"] show ?case by auto
qed

lemma tag_frames_error:
  fixes p q :: "nat \<Rightarrow> real" and d :: "nat \<Rightarrow> fp" and f :: "nat \<Rightarrow> int"
  assumes "ts_init s \<longrightarrow> isfinite (ts_x s) \<and> isfinite (ts_y s)"
  defines "t \<equiv> tag_frames s (\<lambda>n. Finite (p n)) (\<lambda>n. Finite (q n)) d f"
  shows "\<bar>fp_real (ts_x (t (Suc (Suc n)))) - a\<bar> \<le>
           0.88 * \<bar>fp_real (ts_x (t (Suc n))) - a\<bar> + \<bar>p (Suc n) - a\<bar>"
    and "\<bar>fp_real (ts_y (t (Suc (Suc n)))) - b\<bar> \<le>
           0.88 * \<bar>fp_real (ts_y (t (Suc n))) - b\<bar> + \<bar>q (Suc n) - b\<bar>"
proof -
  from tag_frames_finite[OF assms(1), of p q d f n]
  obtain u v where uv: "ts_x (t (Suc n)) = Finite u" "ts_y (t (Suc n)) = Finite v"
    and i: "ts_init (t (Suc n))"
    unfolding t_def
    by (cases "ts_x (tag_frames s (\<lambda>n. Finite (p n)) (\<lambda>n. Finite (q n)) d f (Suc n))";
        cases "ts_y (tag_frames s (\<lambda>n. Finite (p n)) (\<lambda>n. Finite (q n)) d f (Suc n))") auto
  have next_frame: "t (Suc (Suc n)) =
      tag_smooth_update (t (Suc n)) (Finite (p (Suc n))) (Finite (q (Suc n))) (d (Suc n)) (f (Suc n))"
    by (simp add: t_def)
  from tag_step[OF i uv, of "p (Suc n)" "q (Suc n)" "d (Suc n)" "f (Suc n)"]
  obtain \<beta> where \<beta>: "1 - 0.88 \<le> \<beta>" "\<beta> \<le> 1"
    and x: "ts_x (t (Suc (Suc n))) = Finite (u + \<beta> * (p (Suc n) - u))"
    and y: "ts_y (t (Suc (Suc n))) = Finite (v + \<beta> * (q (Suc n) - v))"
    unfolding next_frame by auto
  have "\<bar>u + \<beta> * (p (Suc n) - u) - a\<bar> \<le> 0.88 * \<bar>u - a\<bar> + \<bar>p (Suc n) - a\<bar>"
    by (rule blend_error[OF \<beta>]) simp_all
  then show "\<bar>fp_real (ts_x (t (Suc (Suc n)))) - a\<bar> \<le>
           0.88 * \<bar>fp_real (ts_x (t (Suc n))) - a\<bar> + \<bar>p (Suc n) - a\<bar>"
    unfolding x uv fp_real.simps .
  have "\<bar>v + \<beta> * (q (Suc n) - v) - b\<bar> \<le> 0.88 * \<bar>v - b\<bar> + \<bar>q (Suc n) - b\<bar>"
    by (rule blend_error[OF \<beta>]) simp_all
  then show "\<bar>fp_real (ts_y (t (Suc (Suc n)))) - b\<bar> \<le>
           0.88 * \<bar>fp_real (ts_y (t (Suc n))) - b\<bar> + \<bar>q (Suc n) - b\<bar>"
    unfolding y uv fp_real.simps .
qed

lemma converges_by_contraction:
  fixes X p :: "nat \<Rightarrow> real"
  assumes p: "p \<longlonglongrightarrow> a" and c: "0 \<le> c" "c < 1"
    and step: "\<And>n. \<bar>X (Suc n) - a\<bar> \<le> c * \<bar>X n - a\<bar> + \<bar>p (Suc n) - a\<bar>"
  shows "X \<longlonglongrightarrow> a"
proof -
  have "(\<lambda>n. p (Suc n) - a) \<longlonglongrightarrow> 0"
    using LIMSEQ_Suc[OF p] by (simp add: LIM_zero)
  then have "(\<lambda>n. X n - a) \<longlonglongrightarrow> 0"
    by (rule contraction_limit[OF c]) (rule step)
  then show ?thesis by (rule LIM_zero_cancel)
qed

lemma tag_frames_converge:
  fixes p q :: "nat \<Rightarrow> real"
  assumes p: "p \<longlonglongrightarrow> a" and q: "q \<longlonglongrightarrow> b"
    and s: "ts_init s \<longrightarrow> isfinite (ts_x s) \<and> isfinite (ts_y s)"
  shows "(\<lambda>n. fp_real (ts_x (tag_frames s (\<lambda>n. Finite (p n)) (\<lambda>n. Finite (q n)) d f (Suc n)))) \<longlonglongrightarrow> a"
    and "(\<lambda>n. fp_real (ts_y (tag_frames s (\<lambda>n. Finite (p n)) (\<lambda>n. Finite (q n)) d f (Suc n)))) \<longlonglongrightarrow> b"
proof -
  show "(\<lambda>n. fp_real (ts_x (tag_frames s (\<lambda>n. Finite (p n)) (\<lambda>n. Finite (q n)) d f (Suc n)))) \<longlonglongrightarrow> a"
    by (rule converges_by_contraction[OF p, where c = "0.88"])
       (simp, simp, rule tag_frames_error(1)[OF s])
  show "(\<lambda>n. fp_real (ts_y (tag_frames s (\<lambda>n. Finite (p n)) (\<lambda>n. Finite (q n)) d f (Suc n)))) \<longlonglongrightarrow> b"
    by (rule converges_by_contraction[OF q, where c = "0.88"])
       (simp, simp, rule tag_frames_error(2)[OF s])
qed

lemma overlaySmoothAlpha_bounds:
  "isfinite (overlaySmoothAlpha dt) \<and> 0.15 \<le> fp_real (overlaySmoothAlpha dt) \<and>
   fp_real (overlaySmoothAlpha dt) \<le> 0.65"
  by (cases dt) (auto simp: overlaySmoothAlpha_def std_min_def std_max_def fp_arith)

lemma overlaySmoothAlpha_range:
  "\<exists>\<alpha>. overlaySmoothAlpha dt = Finite \<alpha> \<and> 0.15 \<le> \<alpha> \<and> \<alpha> \<le> 0.65"
  using overlaySmoothAlpha_bounds[of dt] by (cases "overlaySmoothAlpha dt") auto

lemma find_snoc_none:
  "find P xs = None \<Longrightarrow> find P (xs @ [y]) = (if P y then Some y else None)"
  by (induction xs) (auto split: if_splits)

lemma smooth_found_none:
  "find (\<lambda>sm. sp_key sm = key) s = None \<Longrightarrow> smooth_found s key sx sy \<alpha> now = None"
  by (induction s) (auto split: if_splits)

lemma smooth_found_some:
  "find (\<lambda>sm. sp_key sm = key) s = Some sm \<Longrightarrow>
   \<exists>s'. smooth_found s key sx sy \<alpha> now =
           Some (s', sp_sx sm + (sx - sp_sx sm) * \<alpha>, sp_sy sm + (sy - sp_sy sm) * \<alpha>) \<and>
         find (\<lambda>sm. sp_key sm = key) s' =
           Some (sm\<lparr>sp_sx := sp_sx sm + (sx - sp_sx sm) * \<alpha>,
                    sp_sy := sp_sy sm + (sy - sp_sy sm) * \<alpha>,
                    sp_lastSeenMs := now\<rparr>)"
proof (induction s)
  case Nil
  then show ?case by simp
next
  case (Cons e s)
  show ?case
  proof (cases "sp_key e = key")
    case True
    with Cons.prems have "e = sm" by simp
    with True show ?thesis by (simp add: Let_def)
  next
    case False
    with Cons.prems have "find (\<lambda>sm. sp_key sm = key) s = Some sm" by simp
    from Cons.IH[OF this] obtain s' where
      "smooth_found s key sx sy \<alpha> now =
           Some (s', sp_sx sm + (sx - sp_sx sm) * \<alpha>, sp_sy sm + (sy - sp_sy sm) * \<alpha>)"
      "find (\<lambda>sm. sp_key sm = key) s' =
           Some (sm\<lparr>sp_sx := sp_sx sm + (sx - sp_sx sm) * \<alpha>,
                    sp_sy := sp_sy sm + (sy - sp_sy sm) * \<alpha>,
                    sp_lastSeenMs := now\<rparr>)" by blast
    with False have "smooth_found (e # s) key sx sy \<alpha> now =
           Some (e # s', sp_sx sm + (sx - sp_sx sm) * \<alpha>, sp_sy sm + (sy - sp_sy sm) * \<alpha>) \<and>
         find (\<lambda>sm. sp_key sm = key) (e # s') =
           Some (sm\<lparr>sp_sx := sp_sx sm + (sx - sp_sx sm) * \<alpha>,
                    sp_sy := sp_sy sm + (sy - sp_sy sm) * \<alpha>,
                    sp_lastSeenMs := now\<rparr>)" by simp
    then show ?thesis by blast
  qed
qed

lemma smooth_nametag_new:
  assumes "find (\<lambda>sm. sp_key sm = key) s = None"
  shows "snd (smooth_nametag s key sx sy \<alpha> now) = (sx, sy)"
    and "\<exists>e. find (\<lambda>sm. sp_key sm = key) (fst (smooth_nametag s key sx sy \<alpha> now)) = Some e \<and>
             sp_sx e = sx \<and> sp_sy e = sy"
  using assms by (simp_all add: smooth_nametag_def smooth_found_none find_snoc_none)

lemma smooth_nametag_known:
  assumes "find (\<lambda>sm. sp_key sm = key) s = Some sm"
  shows "snd (smooth_nametag s key sx sy \<alpha> now) =
           (sp_sx sm + (sx - sp_sx sm) * \<alpha>, sp_sy sm + (sy - sp_sy sm) * \<alpha>)"
    and "\<exists>e. find (\<lambda>sm. sp_key sm = key) (fst (smooth_nametag s key sx sy \<alpha> now)) = Some e \<and>
             sp_sx e = sp_sx sm + (sx - sp_sx sm) * \<alpha> \<and>
             sp_sy e = sp_sy sm + (sy - sp_sy sm) * \<alpha>"
proof -
  from smooth_found_some[OF assms, of sx sy \<alpha> now] obtain s' where
    f: "smooth_found s key sx sy \<alpha> now =
           Some (s', sp_sx sm + (sx - sp_sx sm) * \<alpha>, sp_sy sm + (sy - sp_sy sm) * \<alpha>)"
    and e: "find (\<lambda>sm. sp_key sm = key) s' =
           Some (sm\<lparr>sp_sx := sp_sx sm + (sx - sp_sx sm) * \<alpha>,
                    sp_sy := sp_sy sm + (sy - sp_sy sm) * \<alpha>,
                    sp_lastSeenMs := now\<rparr>)" by blast
  from f show "snd (smooth_nametag s key sx sy \<alpha> now) =
           (sp_sx sm + (sx - sp_sx sm) * \<alpha>, sp_sy sm + (sy - sp_sy sm) * \<alpha>)"
    by (simp add: smooth_nametag_def)
  from f e show "\<exists>e. find (\<lambda>sm. sp_key sm = key) (fst (smooth_nametag s key sx sy \<alpha> now)) = Some e \<and>
             sp_sx e = sp_sx sm + (sx - sp_sx sm) * \<alpha> \<and>
             sp_sy e = sp_sy sm + (sy - sp_sy sm) * \<alpha>"
    by (simp add: smooth_nametag_def)
qed

lemma smooth_nametag_entry:
  "\<exists>e. find (\<lambda>sm. sp_key sm = key) (fst (smooth_nametag s key sx sy \<alpha> now)) = Some e \<and>
       (sp_sx e, sp_sy e) = snd (smooth_nametag s key sx sy \<alpha> now)"
proof (cases "find (\<lambda>sm. sp_key sm = key) s")
  case None
  from smooth_nametag_new[OF None, of sx sy \<alpha> now] show ?thesis by auto
next
  case (Some sm)
  from smooth_nametag_known[OF Some, of sx sy \<alpha> now] show ?thesis by auto
qed

lemma nametag_drawn_step:
  "nametag_drawn s key sx sy dt now (Suc n) =
     (fst (nametag_drawn s key sx sy dt now n) +
        (sx (Suc n) - fst (nametag_drawn s key sx sy dt now n)) * overlaySmoothAlpha (dt (Suc n)),
      snd (nametag_drawn s key sx sy dt now n) +
        (sy (Suc n) - snd (nametag_drawn s key sx sy dt now n)) * overlaySmoothAlpha (dt (Suc n)))"
proof -
  let ?L = "nametag_frames s key sx sy dt now"
  from smooth_nametag_entry[of key "?L n" "sx n" "sy n" "overlaySmoothAlpha (dt n)" "now n"]
  obtain e where e: "find (\<lambda>sm. sp_key sm = key) (?L (Suc n)) = Some e"
    and d: "(sp_sx e, sp_sy e) = nametag_drawn s key sx sy dt now n"
    by (auto simp: nametag_drawn_def)
  from smooth_nametag_known(1)[OF e, of "sx (Suc n)" "sy (Suc n)" "overlaySmoothAlpha (dt (Suc n))" "now (Suc n)"]
  have "nametag_drawn s key sx sy dt now (Suc n) =
      (sp_sx e + (sx (Suc n) - sp_sx e) * overlaySmoothAlpha (dt (Suc n)),
       sp_sy e + (sy (Suc n) - sp_sy e) * overlaySmoothAlpha (dt (Suc n)))"
    by (simp add: nametag_drawn_def)
  with d[symmetric] show ?thesis by simp
qed

lemma nametag_drawn_finite:
  assumes "\<forall>sm \<in> set s. sp_key sm = key \<longrightarrow> isfinite (sp_sx sm) \<and> isfinite (sp_sy sm)"
  shows "isfinite (fst (nametag_drawn s key (\<lambda>n. Finite (p n)) (\<lambda>n. Finite (q n)) dt now n)) \<and>
         isfinite (snd (nametag_drawn s key (\<lambda>n. Finite (p n)) (\<lambda>n. Finite (q n)) dt now n))"
proof (induction n)
  case 0
  obtain \<alpha> where a: "overlaySmoothAlpha (dt 0) = Finite \<alpha>"
    using overlaySmoothAlpha_range by blast
  show ?case
  proof (cases "find (\<lambda>sm. sp_key sm = key) s")
    case None
    from smooth_nametag_new(1)[OF None] show ?thesis by (simp add: nametag_drawn_def)
  next
    case (Some sm)
    then have "sm \<in> set s" "sp_key sm = key"
      by (auto simp: find_Some_iff in_set_conv_nth)
    with assms obtain u v where "sp_sx sm = Finite u" "sp_sy sm = Finite v"
      by (cases "sp_sx sm"; cases "sp_sy sm") auto
    with smooth_nametag_known(1)[OF Some] a show ?thesis
      by (simp add: nametag_drawn_def fp_arith)
  qed
next
  case (Suc n)
  obtain \<alpha> where a: "overlaySmoothAlpha (dt (Suc n)) = Finite \<alpha>"
    using overlaySmoothAlpha_range by blast
  let ?D = "nametag_drawn s key (\<lambda>n. Finite (p n)) (\<lambda>n. Finite (q n)) dt now n"
  from Suc obtain u v where "fst ?D = Finite u" "snd ?D = Finite v"
    by (cases "fst ?D"; cases "snd ?D") auto
  with a show ?case by (simp add: nametag_drawn_step fp_arith)
qed

lemma nametag_drawn_error:
  fixes p q :: "nat \<Rightarrow> real" and dt :: "nat \<Rightarrow> fp" and now :: "nat \<Rightarrow> nat"
  assumes "\<forall>sm \<in> set s. sp_key sm = key \<longrightarrow> isfinite (sp_sx sm) \<and> isfinite (sp_sy sm)"
  defines "D \<equiv> nametag_drawn s key (\<lambda>n. Finite (p n)) (\<lambda>n. Finite (q n)) dt now"
  shows "\<bar>fp_real (fst (D (Suc n))) - a\<bar> \<le> 0.85 * \<bar>fp_real (fst (D n)) - a\<bar> + \<bar>p (Suc n) - a\<bar>"
    and "\<bar>fp_real (snd (D (Suc n))) - b\<bar> \<le> 0.85 * \<bar>fp_real (snd (D n)) - b\<bar> + \<bar>q (Suc n) - b\<bar>"
proof -
  obtain \<alpha> where al: "overlaySmoothAlpha (dt (Suc n)) = Finite \<alpha>" and r: "1 - 0.85 \<le> \<alpha>" "\<alpha> \<le> 1"
    using overlaySmoothAlpha_range[of "dt (Suc n)"] by auto
  from nametag_drawn_finite[OF assms(1), of p q dt now n]
  obtain u v where uv: "fst (D n) = Finite u" "snd (D n) = Finite v"
    unfolding D_def
    by (cases "fst (nametag_drawn s key (\<lambda>n. Finite (p n)) (\<lambda>n. Finite (q n)) dt now n)";
        cases "snd (nametag_drawn s key (\<lambda>n. Finite (p n)) (\<lambda>n. Finite (q n)) dt now n)") auto
  have x: "fst (D (Suc n)) = Finite (u + \<alpha> * (p (Suc n) - u))"
    and y: "snd (D (Suc n)) = Finite (v + \<alpha> * (q (Suc n) - v))"
    using uv al unfolding D_def by (simp_all add: nametag_drawn_step fp_arith mult.commute)
  have "\<bar>u + \<alpha> * (p (Suc n) - u) - a\<bar> \<le> 0.85 * \<bar>u - a\<bar> + \<bar>p (Suc n) - a\<bar>"
    by (rule blend_error[OF r]) simp_all
  then show "\<bar>fp_real (fst (D (Suc n))) - a\<bar> \<le> 0.85 * \<bar>fp_real (fst (D n)) - a\<bar> + \<bar>p (Suc n) - a\<bar>"
    unfolding x uv fp_real.simps .
  have "\<bar>v + \<alpha> * (q (Suc n) - v) - b\<bar> \<le> 0.85 * \<bar>v - b\<bar> + \<bar>q (Suc n) - b\<bar>"
    by (rule blend_error[OF r]) simp_all
  then show "\<bar>fp_real (snd (D (Suc n))) - b\<bar> \<le> 0.85 * \<bar>fp_real (snd (D n)) - b\<bar> + \<bar>q (Suc n) - b\<bar>"
    unfolding y uv fp_real.simps .
qed

lemma nametag_drawn_converge:
  fixes p q :: "nat \<Rightarrow> real"
  assumes p: "p \<longlonglongrightarrow> a" and q: "q \<longlonglongrightarrow> b"
    and s: "\<forall>sm \<in> set s. sp_key sm = key \<longrightarrow> isfinite (sp_sx sm) \<and> isfinite (sp_sy sm)"
  shows "(\<lambda>n. fp_real (fst (nametag_drawn s key (\<lambda>n. Finite (p n)) (\<lambda>n. Finite (q n)) dt now n))) \<longlonglongrightarrow> a"
    and "(\<lambda>n. fp_real (snd (nametag_drawn s key (\<lambda>n. Finite (p n)) (\<lambda>n. Finite (q n)) dt now n))) \<longlonglongrightarrow> b"
proof -
  show "(\<lambda>n. fp_real (fst (nametag_drawn s key (\<lambda>n. Finite (p n)) (\<lambda>n. Finite (q n)) dt now n))) \<longlonglongrightarrow> a"
    by (rule converges_by_contraction[OF p, where c = "0.85"])
       (simp, simp, rule nametag_drawn_error(1)[OF s])
  show "(\<lambda>n. fp_real (snd (nametag_drawn s key (\<lambda>n. Finite (p n)) (\<lambda>n. Finite (q n)) dt now n))) \<longlonglongrightarrow> b"
    by (rule converges_by_contraction[OF q, where c = "0.85"])
       (simp, simp, rule nametag_drawn_error(2)[OF s])
qed

text \<open>
  C8, as amended. In both bridges the smoothed position of an entity follows a sequence of
  projected positions that converges: it stays finite and converges to the same point
  (real arithmetic on the finite values). In bridge.cpp the first sighting takes the new
  position as it is, and so does every later frame whose squared distance between the new
  and the smoothed position exceeds 24000; otherwise the position is blended. In
  bridge_121.cpp there is no such threshold: a new entry takes the position as it is, and
  every later frame blends with a factor between 0.15 and 0.65, whatever the jump.
\<close>

theorem smoothing_amended:
  fixes p q :: "nat \<Rightarrow> real"
  assumes "p \<longlonglongrightarrow> a" and "q \<longlonglongrightarrow> b"
    and "ts_init s \<longrightarrow> isfinite (ts_x s) \<and> isfinite (ts_y s)"
    and "\<forall>sm \<in> set v. sp_key sm = key \<longrightarrow> isfinite (sp_sx sm) \<and> isfinite (sp_sy sm)"
  shows
    "(\<lambda>n. fp_real (ts_x (tag_frames s (\<lambda>n. Finite (p n)) (\<lambda>n. Finite (q n)) d f (Suc n))))
        \<longlonglongrightarrow> a \<and>
     (\<lambda>n. fp_real (ts_y (tag_frames s (\<lambda>n. Finite (p n)) (\<lambda>n. Finite (q n)) d f (Suc n))))
        \<longlonglongrightarrow> b \<and>
     (\<forall>n. isfinite (ts_x (tag_frames s (\<lambda>n. Finite (p n)) (\<lambda>n. Finite (q n)) d f (Suc n))) \<and>
          isfinite (ts_y (tag_frames s (\<lambda>n. Finite (p n)) (\<lambda>n. Finite (q n)) d f (Suc n)))) \<and>
     (\<not> ts_init t \<or> Finite 24000 < tag_deltaSq t px py \<longrightarrow>
        ts_x (tag_smooth_update t px py e g) = px \<and> ts_y (tag_smooth_update t px py e g) = py) \<and>
     (\<lambda>n. fp_real (fst (nametag_drawn v key (\<lambda>n. Finite (p n)) (\<lambda>n. Finite (q n)) dt now n)))
        \<longlonglongrightarrow> a \<and>
     (\<lambda>n. fp_real (snd (nametag_drawn v key (\<lambda>n. Finite (p n)) (\<lambda>n. Finite (q n)) dt now n)))
        \<longlonglongrightarrow> b \<and>
     (\<forall>n. isfinite (fst (nametag_drawn v key (\<lambda>n. Finite (p n)) (\<lambda>n. Finite (q n)) dt now n)) \<and>
          isfinite (snd (nametag_drawn v key (\<lambda>n. Finite (p n)) (\<lambda>n. Finite (q n)) dt now n))) \<and>
     (find (\<lambda>sm. sp_key sm = k) w = None \<longrightarrow>
        snd (smooth_nametag w k sx sy (overlaySmoothAlpha frameTime) ms) = (sx, sy)) \<and>
     (find (\<lambda>sm. sp_key sm = k) w = Some sm \<longrightarrow>
        snd (smooth_nametag w k sx sy (overlaySmoothAlpha frameTime) ms) =
          (sp_sx sm + (sx - sp_sx sm) * overlaySmoothAlpha frameTime,
           sp_sy sm + (sy - sp_sy sm) * overlaySmoothAlpha frameTime)) \<and>
     isfinite (overlaySmoothAlpha frameTime) \<and>
     0.15 \<le> fp_real (overlaySmoothAlpha frameTime) \<and>
     fp_real (overlaySmoothAlpha frameTime) \<le> 0.65"
proof (intro conjI allI impI)
  show "(\<lambda>n. fp_real (ts_x (tag_frames s (\<lambda>n. Finite (p n)) (\<lambda>n. Finite (q n)) d f (Suc n))))
        \<longlonglongrightarrow> a"
    by (rule tag_frames_converge(1)[OF assms(1,2,3)])
  show "(\<lambda>n. fp_real (ts_y (tag_frames s (\<lambda>n. Finite (p n)) (\<lambda>n. Finite (q n)) d f (Suc n))))
        \<longlonglongrightarrow> b"
    by (rule tag_frames_converge(2)[OF assms(1,2,3)])
  show "(\<lambda>n. fp_real (fst (nametag_drawn v key (\<lambda>n. Finite (p n)) (\<lambda>n. Finite (q n)) dt now n)))
        \<longlonglongrightarrow> a"
    by (rule nametag_drawn_converge(1)[OF assms(1,2,4)])
  show "(\<lambda>n. fp_real (snd (nametag_drawn v key (\<lambda>n. Finite (p n)) (\<lambda>n. Finite (q n)) dt now n)))
        \<longlonglongrightarrow> b"
    by (rule nametag_drawn_converge(2)[OF assms(1,2,4)])
  show "isfinite (overlaySmoothAlpha frameTime)"
    and "0.15 \<le> fp_real (overlaySmoothAlpha frameTime)"
    and "fp_real (overlaySmoothAlpha frameTime) \<le> 0.65"
    using overlaySmoothAlpha_bounds[of frameTime] by simp_all
next
  fix n
  from tag_frames_finite[OF assms(3), of p q d f n]
  show "isfinite (ts_x (tag_frames s (\<lambda>n. Finite (p n)) (\<lambda>n. Finite (q n)) d f (Suc n)))"
    and "isfinite (ts_y (tag_frames s (\<lambda>n. Finite (p n)) (\<lambda>n. Finite (q n)) d f (Suc n)))"
    by simp_all
  from nametag_drawn_finite[OF assms(4), of p q dt now n]
  show "isfinite (fst (nametag_drawn v key (\<lambda>n. Finite (p n)) (\<lambda>n. Finite (q n)) dt now n))"
    and "isfinite (snd (nametag_drawn v key (\<lambda>n. Finite (p n)) (\<lambda>n. Finite (q n)) dt now n))"
    by simp_all
next
  assume "\<not> ts_init t \<or> Finite 24000 < tag_deltaSq t px py"
  then have "ts_x (tag_smooth_update t px py e g) = px \<and> ts_y (tag_smooth_update t px py e g) = py"
    using tag_first_sighting[of t px py e g] tag_snap[of t px py e g] by blast
  then show "ts_x (tag_smooth_update t px py e g) = px"
    and "ts_y (tag_smooth_update t px py e g) = py" by simp_all
next
  assume "find (\<lambda>sm. sp_key sm = k) w = None"
  then show "snd (smooth_nametag w k sx sy (overlaySmoothAlpha frameTime) ms) = (sx, sy)"
    by (rule smooth_nametag_new(1))
next
  assume "find (\<lambda>sm. sp_key sm = k) w = Some sm"
  then show "snd (smooth_nametag w k sx sy (overlaySmoothAlpha frameTime) ms) =
          (sp_sx sm + (sx - sp_sx sm) * overlaySmoothAlpha frameTime,
           sp_sy sm + (sy - sp_sy sm) * overlaySmoothAlpha frameTime)"
    by (rule smooth_nametag_known(1))
qed

theorem smoothing_amended_witness:
  "(\<lambda>n. fp_real (ts_x (tag_frames new_TagSmoothingState (\<lambda>n. Finite 960) (\<lambda>n. Finite 540)
           (\<lambda>n. Finite 10) (\<lambda>n. int n) (Suc n)))) \<longlonglongrightarrow> 960 \<and>
   (\<lambda>n. fp_real (snd (nametag_drawn [steve_entry] ''Steve'' (\<lambda>n. Finite 960) (\<lambda>n. Finite 540)
           (\<lambda>n. Finite 0.02) (\<lambda>n. 20 * n) n))) \<longlonglongrightarrow> 540 \<and>
   Finite 24000 < tag_deltaSq tracked_at_origin (Finite 1000) (Finite 0) \<and>
   ts_x (tag_smooth_update tracked_at_origin (Finite 1000) (Finite 0) (Finite 10) 7) = Finite 1000 \<and>
   find (\<lambda>sm. sp_key sm = ''Steve'') [steve_entry] = Some steve_entry \<and>
   snd (smooth_nametag [steve_entry] ''Steve'' (Finite 1000) (Finite 0)
          (overlaySmoothAlpha (Finite 0.02)) 20) =
     (sp_sx steve_entry + (Finite 1000 - sp_sx steve_entry) * overlaySmoothAlpha (Finite 0.02),
      sp_sy steve_entry + (Finite 0 - sp_sy steve_entry) * overlaySmoothAlpha (Finite 0.02))"
proof -
  have lim: "(\<lambda>n::nat. 960::real) \<longlonglongrightarrow> 960" "(\<lambda>n::nat. 540::real) \<longlonglongrightarrow> 540"
    by simp_all
  have fresh: "ts_init new_TagSmoothingState \<longrightarrow>
      isfinite (ts_x new_TagSmoothingState) \<and> isfinite (ts_y new_TagSmoothingState)"
    by (simp add: new_TagSmoothingState_def)
  have entries: "\<forall>sm \<in> set [steve_entry]. sp_key sm = ''Steve'' \<longrightarrow>
      isfinite (sp_sx sm) \<and> isfinite (sp_sy sm)"
    by (simp add: steve_entry_def)
  have jump: "Finite 24000 < tag_deltaSq tracked_at_origin (Finite 1000) (Finite 0)"
    by (simp add: tag_deltaSq_def tracked_at_origin_def Let_def fp_arith)
  have known: "find (\<lambda>sm. sp_key sm = ''Steve'') [steve_entry] = Some steve_entry"
    by (simp add: steve_entry_def)
  from smoothing_amended[OF lim fresh entries, of "\<lambda>n. Finite 10" "\<lambda>n. int n" tracked_at_origin
      "Finite 1000" "Finite 0" "Finite 10" 7 "\<lambda>n. Finite 0.02" "\<lambda>n. 20 * n" "''Steve''"
      "[steve_entry]" "Finite 1000" "Finite 0" "Finite 0.02" 20 steve_entry]
    jump known
  show ?thesis by simp
qed

text \<open>
  C8 as stated fails on bridge_121.cpp: an entry at (0, 0) that is projected 1000 pixels
  away in the next frame (squared distance far above 24000) is drawn at 280, not at 1000,
  with a frame time of 20 ms.
\<close>

theorem smoothing_counterexample:
  "Finite 24000 < (Finite 1000 - sp_sx steve_entry) * (Finite 1000 - sp_sx steve_entry) +
                    (Finite 0 - sp_sy steve_entry) * (Finite 0 - sp_sy steve_entry) \<and>
   snd (smooth_nametag [steve_entry] ''Steve'' (Finite 1000) (Finite 0)
          (overlaySmoothAlpha (Finite 0.02)) 20) = (Finite 280, Finite 0)"
  by (simp add: smooth_nametag_def steve_entry_def overlaySmoothAlpha_def std_min_def std_max_def
        Let_def fp_arith)

section \<open>Discovery retry loop\<close>

declare MainThread_discovery.simps [simp del]

lemma MainThread_discovery_done:
  "\<not> attempt < 5 \<Longrightarrow> MainThread_discovery resolve jvm attempt c = []"
  by (simp add: MainThread_discovery.simps[of resolve jvm attempt c])

lemma MainThread_discovery_success:
  "attempt < 5 \<Longrightarrow> DiscoverJniMappings resolve (jvm attempt) c = (True, c') \<Longrightarrow>
   MainThread_discovery resolve jvm attempt c = [Discovery attempt True c']"
  by (simp add: MainThread_discovery.simps[of resolve jvm attempt c])

lemma MainThread_discovery_retry:
  "attempt < 5 \<Longrightarrow> DiscoverJniMappings resolve (jvm attempt) c = (False, c') \<Longrightarrow>
   MainThread_discovery resolve jvm attempt c =
     Discovery attempt False c' # Sleep 3000 # MainThread_discovery resolve jvm (attempt + 1) c'"
  by (simp add: MainThread_discovery.simps[of resolve jvm attempt c])

lemma DiscoverJniMappings_failed:
  "DiscoverJniMappings resolve jvm c = (False, c') \<Longrightarrow>
     roles c' = roles c \<and>
     (g_gameClassLoader c = Some x \<longrightarrow> g_gameClassLoader c' = Some x) \<and>
     (g_gameClassLoader c' = g_gameClassLoader c \<or> g_gameClassLoader c = None)"
  by (auto simp: DiscoverJniMappings_def Let_def split: if_splits option.splits)

lemma DiscoverJniMappings_classloader:
  "DiscoverJniMappings resolve jvm c = (ok, c') \<Longrightarrow> g_gameClassLoader c = Some x \<Longrightarrow>
     g_gameClassLoader c' = Some x"
  by (auto simp: DiscoverJniMappings_def Let_def split: if_splits option.splits)

lemma MainThread_discovery_shape:
  "attempt \<le> 5 \<Longrightarrow> retry_shape attempt (MainThread_discovery resolve jvm attempt c)"
proof (induction resolve jvm attempt c rule: MainThread_discovery.induct)
  case (1 resolve jvm attempt c)
  show ?case
  proof (cases "attempt < 5")
    case False
    with "1.prems" show ?thesis by (simp add: MainThread_discovery_done)
  next
    case True
    obtain ok c' where r: "DiscoverJniMappings resolve (jvm attempt) c = (ok, c')"
      by (cases "DiscoverJniMappings resolve (jvm attempt) c")
    show ?thesis
    proof (cases ok)
      case True
      with \<open>attempt < 5\<close> r show ?thesis by (simp add: MainThread_discovery_success)
    next
      case False
      with r have f: "DiscoverJniMappings resolve (jvm attempt) c = (False, c')" by simp
      have unroll: "MainThread_discovery resolve jvm attempt c =
          Discovery attempt False c' # Sleep 3000 # MainThread_discovery resolve jvm (attempt + 1) c'"
        using \<open>attempt < 5\<close> f by (rule MainThread_discovery_retry)
      from \<open>attempt < 5\<close> have "retry_shape (Suc attempt) (MainThread_discovery resolve jvm (attempt + 1) c')"
        using "1.IH"[OF \<open>attempt < 5\<close> f[symmetric]] by simp
      with \<open>attempt < 5\<close> show ?thesis
        by (simp add: unroll)
    qed
  qed
qed

lemma retry_shape_bound:
  "retry_shape attempt tr \<Longrightarrow>
     attempt \<le> 5 \<and> length (passes tr) \<le> 5 - attempt \<and> set (sleeps tr) \<subseteq> {3000} \<and>
     map fst (passes tr) = [attempt ..< attempt + length (passes tr)] \<and>
     (length (sleeps tr) = length (passes tr) \<or> Suc (length (sleeps tr)) = length (passes tr))"
proof (induction attempt tr rule: retry_shape.induct)
  case (3 attempt i ok c ms tr)
  then have s: "retry_shape (Suc attempt) tr" and a: "attempt < 5" "i = attempt" "ms = 3000"
    by simp_all
  from "3.IH"[OF s] a show ?case
    by (auto simp: upt_rec[of attempt])
qed (auto simp: upt_rec)

lemma MainThread_discovery_keeps:
  "(i, ok, ci) \<in> set (passes (MainThread_discovery resolve jvm attempt c)) \<Longrightarrow>
     (\<not> ok \<longrightarrow> roles ci = roles c) \<and>
     (\<forall>x. g_gameClassLoader c = Some x \<longrightarrow> g_gameClassLoader ci = Some x)"
proof (induction resolve jvm attempt c rule: MainThread_discovery.induct)
  case (1 resolve jvm attempt c)
  show ?case
  proof (cases "attempt < 5")
    case False
    with "1.prems" show ?thesis by (simp add: MainThread_discovery_done)
  next
    case True
    obtain r c' where r: "DiscoverJniMappings resolve (jvm attempt) c = (r, c')"
      by (cases "DiscoverJniMappings resolve (jvm attempt) c")
    show ?thesis
    proof (cases r)
      case True
      with \<open>attempt < 5\<close> r "1.prems" have "ci = c'" "ok"
        by (simp_all add: MainThread_discovery_success)
      with r DiscoverJniMappings_classloader[of resolve "jvm attempt" c r c'] show ?thesis
        by simp
    next
      case False
      from False r have f: "DiscoverJniMappings resolve (jvm attempt) c = (False, c')" by simp
      have unroll: "MainThread_discovery resolve jvm attempt c =
          Discovery attempt False c' # Sleep 3000 # MainThread_discovery resolve jvm (attempt + 1) c'"
        using \<open>attempt < 5\<close> f by (rule MainThread_discovery_retry)
      note kept = DiscoverJniMappings_failed[OF f]
      from "1.prems"
      consider "(i, ok, ci) = (attempt, False, c')"
        | "(i, ok, ci) \<in> set (passes (MainThread_discovery resolve jvm (attempt + 1) c'))"
        unfolding unroll by auto
      then show ?thesis
      proof cases
        case 1
        with kept show ?thesis by simp
      next
        case 2
        from "1.IH"[OF \<open>attempt < 5\<close> f[symmetric] refl 2] kept show ?thesis
          by auto
      qed
    qed
  qed
qed

lemma MainThread_discovery_monotone:
  "sorted_wrt (\<lambda>a b. \<forall>x. g_gameClassLoader (snd (snd a)) = Some x \<longrightarrow>
                          g_gameClassLoader (snd (snd b)) = Some x)
     (passes (MainThread_discovery resolve jvm attempt c))"
proof (induction resolve jvm attempt c rule: MainThread_discovery.induct)
  case (1 resolve jvm attempt c)
  show ?case
  proof (cases "attempt < 5")
    case False
    then show ?thesis by (simp add: MainThread_discovery_done)
  next
    case True
    obtain r c' where r: "DiscoverJniMappings resolve (jvm attempt) c = (r, c')"
      by (cases "DiscoverJniMappings resolve (jvm attempt) c")
    show ?thesis
    proof (cases r)
      case True
      with \<open>attempt < 5\<close> r show ?thesis by (simp add: MainThread_discovery_success)
    next
      case False
      from False r have f: "DiscoverJniMappings resolve (jvm attempt) c = (False, c')" by simp
      have unroll: "MainThread_discovery resolve jvm attempt c =
          Discovery attempt False c' # Sleep 3000 # MainThread_discovery resolve jvm (attempt + 1) c'"
        using \<open>attempt < 5\<close> f by (rule MainThread_discovery_retry)
      have later: "\<forall>b \<in> set (passes (MainThread_discovery resolve jvm (attempt + 1) c')).
          \<forall>x. g_gameClassLoader c' = Some x \<longrightarrow> g_gameClassLoader (snd (snd b)) = Some x"
        using MainThread_discovery_keeps[of _ _ _ resolve jvm "attempt + 1" c'] by auto
      from "1.IH"[OF \<open>attempt < 5\<close> f[symmetric] refl] later show ?thesis
        unfolding unroll by simp
    qed
  qed
qed

lemma ready_from_third_run:
  "MainThread_discovery mark_resolved ready_from_third 0 empty_cache =
     [Discovery 0 False \<lparr>g_gameClassLoader = Some 11, roles = False\<rparr>, Sleep 3000,
      Discovery 1 False \<lparr>g_gameClassLoader = Some 11, roles = False\<rparr>, Sleep 3000,
      Discovery 2 True \<lparr>g_gameClassLoader = Some 11, roles = True\<rparr>]"
  by code_simp

lemma never_ready_run:
  "passes (MainThread_discovery mark_resolved never_ready 0 empty_cache) =
     [(0, False, \<lparr>g_gameClassLoader = Some 11, roles = False\<rparr>),
      (1, False, \<lparr>g_gameClassLoader = Some 11, roles = False\<rparr>),
      (2, False, \<lparr>g_gameClassLoader = Some 11, roles = False\<rparr>),
      (3, False, \<lparr>g_gameClassLoader = Some 11, roles = False\<rparr>),
      (4, False, \<lparr>g_gameClassLoader = Some 11, roles = False\<rparr>)]"
  by code_simp


text \<open>
  Claim C7. The loop of \<^verbatim>\<open>MainThread\<close> (bridge_121.cpp, lines 4752 to 4758) calls the
  discovery pass at most five times, numbered 0, 1, 2, ...; it stops at the first pass
  that succeeds, and it sleeps the same 3000 ms after every pass that fails. A pass that
  fails leaves every handle other than the game classloader as it was, and the game
  classloader, once resolved by some pass, is the same after every later pass. This holds
  for every host, whatever it answers at each attempt, and from every cache.
\<close>

theorem discovery_retry_bounded:
  "retry_shape 0 (MainThread_discovery resolve jvm 0 c) \<and>
   length (passes (MainThread_discovery resolve jvm 0 c)) \<le> 5 \<and>
   map fst (passes (MainThread_discovery resolve jvm 0 c)) =
     [0 ..< length (passes (MainThread_discovery resolve jvm 0 c))] \<and>
   set (sleeps (MainThread_discovery resolve jvm 0 c)) \<subseteq> {3000} \<and>
   (\<forall>(i, ok, ci) \<in> set (passes (MainThread_discovery resolve jvm 0 c)).
      (\<not> ok \<longrightarrow> roles ci = roles c) \<and>
      (\<forall>x. g_gameClassLoader c = Some x \<longrightarrow> g_gameClassLoader ci = Some x)) \<and>
   (\<forall>i j x. i < j \<longrightarrow> j < length (passes (MainThread_discovery resolve jvm 0 c)) \<longrightarrow>
      g_gameClassLoader (snd (snd (passes (MainThread_discovery resolve jvm 0 c) ! i))) = Some x \<longrightarrow>
      g_gameClassLoader (snd (snd (passes (MainThread_discovery resolve jvm 0 c) ! j))) = Some x)"
proof -
  let ?tr = "MainThread_discovery resolve jvm 0 c"
  have shape: "retry_shape 0 ?tr"
    by (rule MainThread_discovery_shape) simp
  note bound = retry_shape_bound[OF shape]
  have kept: "\<forall>(i, ok, ci) \<in> set (passes ?tr).
      (\<not> ok \<longrightarrow> roles ci = roles c) \<and>
      (\<forall>x. g_gameClassLoader c = Some x \<longrightarrow> g_gameClassLoader ci = Some x)"
    using MainThread_discovery_keeps[of _ _ _ resolve jvm 0 c] by blast
  have mono: "\<forall>i j x. i < j \<longrightarrow> j < length (passes ?tr) \<longrightarrow>
      g_gameClassLoader (snd (snd (passes ?tr ! i))) = Some x \<longrightarrow>
      g_gameClassLoader (snd (snd (passes ?tr ! j))) = Some x"
    using MainThread_discovery_monotone[of resolve jvm 0 c]
    by (simp add: sorted_wrt_iff_nth_less)
  from shape bound kept mono show ?thesis
    by simp
qed

theorem discovery_retry_bounded_witness:
  "MainThread_discovery mark_resolved ready_from_third 0 empty_cache =
     [Discovery 0 False \<lparr>g_gameClassLoader = Some 11, roles = False\<rparr>, Sleep 3000,
      Discovery 1 False \<lparr>g_gameClassLoader = Some 11, roles = False\<rparr>, Sleep 3000,
      Discovery 2 True \<lparr>g_gameClassLoader = Some 11, roles = True\<rparr>] \<and>
   retry_shape 0 (MainThread_discovery mark_resolved ready_from_third 0 empty_cache) \<and>
   length (passes (MainThread_discovery mark_resolved ready_from_third 0 empty_cache)) = 3 \<and>
   sleeps (MainThread_discovery mark_resolved ready_from_third 0 empty_cache) = [3000, 3000] \<and>
   map fst (passes (MainThread_discovery mark_resolved never_ready 0 empty_cache)) = [0, 1, 2, 3, 4] \<and>
   length (passes (MainThread_discovery mark_resolved never_ready 0 empty_cache)) \<le> 5"
  using discovery_retry_bounded[of mark_resolved ready_from_third empty_cache]
    discovery_retry_bounded[of mark_resolved never_ready empty_cache]
  by (simp add: ready_from_third_run never_ready_run)
section \<open>Repeated discovery (bridge.cpp)\<close>



























section \<open>What the render callback invokes (bridge.cpp)\<close>

declare nametag_loop.simps [simp del]

lemma RenderNametags_disabled:
  "\<not> nametags cfg \<or> \<not> required_handles c \<Longrightarrow> RenderNametags_calls cfg c host = []"
  by (auto simp: RenderNametags_calls_def)

lemma nametag_loop_first:
  assumes "0 < size_answer host"
  shows "CallObjectMethod listGet \<in> set (nametag_loop cfg c host listGet 0 0)"
  using assms by (subst nametag_loop.simps) (simp add: Let_def)

lemma nametag_loop_reads:
  assumes "0 < size_answer host" and "\<not> get_throws (entity_at host 0)"
    and "\<not> is_null (entity_at host 0)" and "\<not> is_local_player (entity_at host 0)"
  shows "set (call_through CallObjectMethod (g_getNameMethod c) @
              call_through CallFloatMethod (g_getHealthMethod c))
           \<subseteq> set (nametag_loop cfg c host listGet 0 0)"
  using assms by (subst nametag_loop.simps) (auto simp: Let_def)

lemma RenderNametags_reached:
  assumes "reaches_list cfg c host"
  obtains listSize listGet where
    "g_listSizeMethod c = Some listSize" and "g_listGetMethod c = Some listGet"
    and "RenderNametags_calls cfg c host =
       (let sized = GetMatrix_calls (g_floatBufferGet c) (modelview_buffer host) @
                    GetMatrix_calls (g_floatBufferGet c) (projection_buffer host) @
                    [CallIntMethod listSize];
            screen = (if g_currentScreenField c \<noteq> None
                      then call_through CallObjectMethod (screen_getName host) else [])
        in if size_throws host then sized
           else if \<not> player_present host then sized @ screen
           else sized @ screen @ nametag_loop cfg c host listGet 0 0)"
proof -
  from assms obtain listSize listGet where
    h: "g_listSizeMethod c = Some listSize" "g_listGetMethod c = Some listGet"
    by (auto simp: reaches_list_def required_handles_def)
  show thesis
    using assms by (intro that[OF h]) (simp add: RenderNametags_calls_def reaches_list_def h Let_def)
qed

lemma one_player_frame_calls:
  "RenderNametags_calls nametags_on resolved_cache one_player_frame =
     [CallIntMethod 64, CallObjectMethod 65, CallObjectMethod 65, CallObjectMethod 50,
      CallFloatMethod 70, CallIntMethod 71]"
  by code_simp

text \<open>
  Claim C2, as bridge.cpp has it. \<^verbatim>\<open>RenderNametags\<close> makes no invocation when nametags are
  disabled or a required handle is unresolved. In a frame that reaches the entity list
  (nametags enabled, required handles resolved, environment attached, world and list not
  null) it invokes \<^verbatim>\<open>List.size\<close> through \<^verbatim>\<open>g_listSizeMethod\<close>; when that does not throw,
  the local player exists and the size is positive, it invokes \<^verbatim>\<open>List.get\<close> through
  \<^verbatim>\<open>g_listGetMethod\<close>, and when the first element is another player it invokes
  \<^verbatim>\<open>getName\<close> and \<^verbatim>\<open>getHealth\<close> where these are resolved. With the font initialised and a
  window of positive size, everything \<^verbatim>\<open>RenderNametags\<close> invokes is invoked by
  \<^verbatim>\<open>HookedSwapBuffers\<close>.
\<close>

theorem render_callback_amended:
  "(\<not> nametags cfg \<or> \<not> required_handles c \<longrightarrow> RenderNametags_calls cfg c host = []) \<and>
   (reaches_list cfg c host \<longrightarrow>
      (\<exists>listSize listGet.
         g_listSizeMethod c = Some listSize \<and> g_listGetMethod c = Some listGet \<and>
         CallIntMethod listSize \<in> set (RenderNametags_calls cfg c host) \<and>
         (\<not> size_throws host \<and> player_present host \<and> 0 < size_answer host \<longrightarrow>
            CallObjectMethod listGet \<in> set (RenderNametags_calls cfg c host) \<and>
            (\<not> get_throws (entity_at host 0) \<and> \<not> is_null (entity_at host 0) \<and>
             \<not> is_local_player (entity_at host 0) \<longrightarrow>
               set (call_through CallObjectMethod (g_getNameMethod c) @
                    call_through CallFloatMethod (g_getHealthMethod c))
                 \<subseteq> set (RenderNametags_calls cfg c host))))) \<and>
   (glInitialized \<and> 0 < w \<and> 0 < h \<longrightarrow>
      set (RenderNametags_calls cfg c host)
        \<subseteq> set (HookedSwapBuffers_calls glInitialized w h hud others cfg c host))"
proof (intro conjI impI)
  assume "\<not> nametags cfg \<or> \<not> required_handles c"
  then show "RenderNametags_calls cfg c host = []"
    by (rule RenderNametags_disabled)
next
  assume "glInitialized \<and> 0 < w \<and> 0 < h"
  then show "set (RenderNametags_calls cfg c host)
        \<subseteq> set (HookedSwapBuffers_calls glInitialized w h hud others cfg c host)"
    by (auto simp: HookedSwapBuffers_calls_def)
next
  assume r: "reaches_list cfg c host"
  then obtain listSize listGet where
    h: "g_listSizeMethod c = Some listSize" "g_listGetMethod c = Some listGet"
    and calls: "RenderNametags_calls cfg c host =
       (let sized = GetMatrix_calls (g_floatBufferGet c) (modelview_buffer host) @
                    GetMatrix_calls (g_floatBufferGet c) (projection_buffer host) @
                    [CallIntMethod listSize];
            screen = (if g_currentScreenField c \<noteq> None
                      then call_through CallObjectMethod (screen_getName host) else [])
        in if size_throws host then sized
           else if \<not> player_present host then sized @ screen
           else sized @ screen @ nametag_loop cfg c host listGet 0 0)"
    by (rule RenderNametags_reached)
  have size: "CallIntMethod listSize \<in> set (RenderNametags_calls cfg c host)"
    by (simp add: calls Let_def)
  have get: "CallObjectMethod listGet \<in> set (RenderNametags_calls cfg c host)"
    if "\<not> size_throws host \<and> player_present host \<and> 0 < size_answer host"
    using that nametag_loop_first[where host = host and cfg = cfg and c = c and listGet = listGet] by (simp add: calls Let_def)
  have reads: "set (call_through CallObjectMethod (g_getNameMethod c) @
                    call_through CallFloatMethod (g_getHealthMethod c))
                 \<subseteq> set (RenderNametags_calls cfg c host)"
    if "\<not> size_throws host \<and> player_present host \<and> 0 < size_answer host"
      and "\<not> get_throws (entity_at host 0) \<and> \<not> is_null (entity_at host 0) \<and>
           \<not> is_local_player (entity_at host 0)"
    using that nametag_loop_reads[where host = host and cfg = cfg and c = c and listGet = listGet] by (auto simp: calls Let_def)
  from h size get reads
  show "\<exists>listSize listGet.
         g_listSizeMethod c = Some listSize \<and> g_listGetMethod c = Some listGet \<and>
         CallIntMethod listSize \<in> set (RenderNametags_calls cfg c host) \<and>
         (\<not> size_throws host \<and> player_present host \<and> 0 < size_answer host \<longrightarrow>
            CallObjectMethod listGet \<in> set (RenderNametags_calls cfg c host) \<and>
            (\<not> get_throws (entity_at host 0) \<and> \<not> is_null (entity_at host 0) \<and>
             \<not> is_local_player (entity_at host 0) \<longrightarrow>
               set (call_through CallObjectMethod (g_getNameMethod c) @
                    call_through CallFloatMethod (g_getHealthMethod c))
                 \<subseteq> set (RenderNametags_calls cfg c host)))"
    by blast
qed

theorem render_callback_amended_witness:
  "reaches_list nametags_on resolved_cache one_player_frame \<and>
   g_listSizeMethod resolved_cache = Some 64 \<and>
   CallIntMethod 64 \<in> set (RenderNametags_calls nametags_on resolved_cache one_player_frame) \<and>
   CallObjectMethod 65 \<in> set (RenderNametags_calls nametags_on resolved_cache one_player_frame) \<and>
   RenderNametags_calls default_Config resolved_cache one_player_frame = [] \<and>
   set (RenderNametags_calls nametags_on resolved_cache one_player_frame)
     \<subseteq> set (HookedSwapBuffers_calls True 1920 1080 [] [] nametags_on resolved_cache one_player_frame)"
proof -
  have r: "reaches_list nametags_on resolved_cache one_player_frame"
    by code_simp
  have h: "g_listSizeMethod resolved_cache = Some 64" "g_listGetMethod resolved_cache = Some 65"
    by code_simp+
  have f: "\<not> size_throws one_player_frame \<and> player_present one_player_frame \<and>
           0 < size_answer one_player_frame"
    by (simp add: one_player_frame_def)
  have off: "\<not> nametags default_Config"
    by (simp add: default_Config_def)
  from render_callback_amended[of default_Config resolved_cache one_player_frame True 1920 1080 "[]" "[]"]
    render_callback_amended[of nametags_on resolved_cache one_player_frame True 1920 1080 "[]" "[]"]
    r h f off
  show ?thesis
    by auto
qed

text \<open>
  The sentence of the specification fails on a frame of bridge.cpp with nametags enabled
  and one other player in the world: the render callback invokes \<^verbatim>\<open>List.size\<close>,
  \<^verbatim>\<open>List.get\<close> twice, \<^verbatim>\<open>getName\<close>, \<^verbatim>\<open>getHealth\<close> and \<^verbatim>\<open>hashCode\<close>.
\<close>

theorem render_callback_counterexample:
  "HookedSwapBuffers_calls True 1920 1080 [] [] nametags_on resolved_cache one_player_frame =
     [CallIntMethod 64, CallObjectMethod 65, CallObjectMethod 65, CallObjectMethod 50,
      CallFloatMethod 70, CallIntMethod 71]"
  by (simp add: HookedSwapBuffers_calls_def one_player_frame_calls)

end
